theory Spec2Isabelle
  imports Complex_Main
begin

section \<open>Data model\<close>

text \<open>
  The records follow the interfaces \<^verbatim>\<open>DeliveryPerson\<close> and \<^verbatim>\<open>Batch\<close>. An optional
  property (\<^verbatim>\<open>field?: T\<close>) is an \<open>option\<close>: \<open>None\<close> is \<^verbatim>\<open>undefined\<close>. The property
  \<^verbatim>\<open>id\<close> is named \<open>batch_id\<close> and \<open>person_id\<close>, since \<open>id\<close> is the identity function
  of HOL. Numbers are modelled on the integers, where the arithmetic of the program
  (sums, a product by the fee, comparisons) is exact.
\<close>

datatype status = Pending | Finalized

record DeliveryPerson =
  person_id :: string
  name :: string
  cpf :: "string option"
  address :: "string option"
  phone :: "string option"
  whatsapp :: "string option"
  pix :: "string option"
  route :: "string option"

record Batch =
  batch_id :: string
  deliveryPersonId :: string
  pgfnInitial :: int
  normalInitial :: int
  departureDatetime :: string
  estimatedReturnDate :: string
  status :: status
  description :: string
  pgfnDelivered :: "int option"
  pgfnReturned :: "int option"
  pgfnAbsent :: "int option"
  normalDelivered :: "int option"
  normalReturned :: "int option"
  normalAbsent :: "int option"
  totalValue :: "int option"
  returnDatetime :: "string option"

definition DELIVERY_FEE :: int where
  "DELIVERY_FEE = 3"

definition ARCHIVE_DELAY_DAYS :: int where
  "ARCHIVE_DELAY_DAYS = 4"

text \<open>
  The store of the application: the two \<^verbatim>\<open>useState\<close> arrays of \<^verbatim>\<open>App\<close>.
\<close>

record app_state =
  batches :: "Batch list"
  deliveryPeople :: "DeliveryPerson list"

section \<open>Form data and schemas\<close>

text \<open>
  A form handler reads the fields of its form, validates them with a schema and either
  records the field errors and returns, or calls the callback it was given. \<open>Rejected\<close>
  carries the keys of \<^verbatim>\<open>getZodFieldErrors\<close>, \<open>Thrown\<close> is an exception that leaves the
  handler, \<open>Accepted\<close> carries the argument of the callback.

  A numeric field is read through \<^verbatim>\<open>z.coerce.number()\<close>, that is \<^verbatim>\<open>Number(text)\<close>: the
  model takes the coerced value, \<open>Some n\<close> for a number and \<open>None\<close> for \<^verbatim>\<open>NaN\<close>, which
  the schema refuses as not a number. A field of the wrong type aborts the parse of
  the object, and a refinement of the object is then not evaluated; a failed \<^verbatim>\<open>min\<close>
  check does not abort it.
\<close>

datatype 'a submit = Rejected "string list" | Thrown | Accepted 'a

record count_inputs =
  in_pgfnDelivered :: "int option"
  in_pgfnReturned :: "int option"
  in_pgfnAbsent :: "int option"
  in_normalDelivered :: "int option"
  in_normalReturned :: "int option"
  in_normalAbsent :: "int option"

record counts =
  c_pgfnDelivered :: int
  c_pgfnReturned :: int
  c_pgfnAbsent :: int
  c_normalDelivered :: int
  c_normalReturned :: int
  c_normalAbsent :: int

record new_batch_form =
  f_deliveryPersonId :: string
  f_pgfnInitial :: "int option"
  f_normalInitial :: "int option"
  f_departureDatetime :: string
  f_estimatedReturnDate :: string

text \<open>\<^verbatim>\<open>z.string().min(1)\<close> on the field \<open>key\<close>.\<close>

definition string_min1 :: "string \<Rightarrow> string \<Rightarrow> string list" where
  "string_min1 key s = (if length s < 1 then [key] else [])"

text \<open>\<^verbatim>\<open>z.coerce.number().min(0)\<close> on the field \<open>key\<close>.\<close>

definition number_min0 :: "string \<Rightarrow> int option \<Rightarrow> string list" where
  "number_min0 key v = (case v of None \<Rightarrow> [key] | Some n \<Rightarrow> (if n < 0 then [key] else []))"

text \<open>
  \<^verbatim>\<open>getZodFieldErrors\<close>: one entry for each key that has an issue, in the order of
  the first issue of each key.
\<close>

definition getZodFieldErrors :: "string list \<Rightarrow> string list" where
  "getZodFieldErrors issues = rev (remdups (rev issues))"

definition deliveryPersonSchema :: "DeliveryPerson \<Rightarrow> DeliveryPerson submit" where
  "deliveryPersonSchema personData =
     (let issues = string_min1 ''name'' (name personData) in
      if issues = [] then Accepted personData else Rejected (getZodFieldErrors issues))"

definition newBatchSchema :: "new_batch_form \<Rightarrow> string \<Rightarrow> Batch submit" where
  "newBatchSchema d descr =
     (let fieldIssues =
            string_min1 ''deliveryPersonId'' (f_deliveryPersonId d)
          @ number_min0 ''pgfnInitial'' (f_pgfnInitial d)
          @ number_min0 ''normalInitial'' (f_normalInitial d)
          @ string_min1 ''departureDatetime'' (f_departureDatetime d)
          @ string_min1 ''estimatedReturnDate'' (f_estimatedReturnDate d)
      in case (f_pgfnInitial d, f_normalInitial d) of
           (Some p, Some n) \<Rightarrow>
             (let issues = fieldIssues @ (if p > 0 \<or> n > 0 then [] else [''pgfnInitial''])
              in if issues = []
                 then Accepted \<lparr> batch_id = [],
                        deliveryPersonId = f_deliveryPersonId d,
                        pgfnInitial = p, normalInitial = n,
                        departureDatetime = f_departureDatetime d,
                        estimatedReturnDate = f_estimatedReturnDate d,
                        status = Pending, description = descr,
                        pgfnDelivered = None, pgfnReturned = None, pgfnAbsent = None,
                        normalDelivered = None, normalReturned = None, normalAbsent = None,
                        totalValue = None, returnDatetime = None \<rparr>
                 else Rejected (getZodFieldErrors issues))
         | _ \<Rightarrow> Rejected (getZodFieldErrors fieldIssues))"

text \<open>
  The six count fields of \<^verbatim>\<open>createFinalizeBatchSchema\<close>, their coerced values, and
  the \<^verbatim>\<open>superRefine\<close> on their sums.
\<close>

definition count_field_issues :: "count_inputs \<Rightarrow> string list" where
  "count_field_issues d =
       number_min0 ''pgfnDelivered'' (in_pgfnDelivered d)
     @ number_min0 ''pgfnReturned'' (in_pgfnReturned d)
     @ number_min0 ''pgfnAbsent'' (in_pgfnAbsent d)
     @ number_min0 ''normalDelivered'' (in_normalDelivered d)
     @ number_min0 ''normalReturned'' (in_normalReturned d)
     @ number_min0 ''normalAbsent'' (in_normalAbsent d)"

definition coerced_counts :: "count_inputs \<Rightarrow> counts option" where
  "coerced_counts d =
     (case (in_pgfnDelivered d, in_pgfnReturned d, in_pgfnAbsent d,
            in_normalDelivered d, in_normalReturned d, in_normalAbsent d) of
        (Some pd, Some pr, Some pa, Some nd, Some nr, Some na) \<Rightarrow>
          Some \<lparr> c_pgfnDelivered = pd, c_pgfnReturned = pr, c_pgfnAbsent = pa,
                 c_normalDelivered = nd, c_normalReturned = nr, c_normalAbsent = na \<rparr>
      | _ \<Rightarrow> None)"

definition sum_issues :: "Batch \<Rightarrow> counts \<Rightarrow> string list" where
  "sum_issues batch c =
       (if c_pgfnDelivered c + c_pgfnReturned c + c_pgfnAbsent c \<noteq> pgfnInitial batch
        then [''pgfn''] else [])
     @ (if c_normalDelivered c + c_normalReturned c + c_normalAbsent c \<noteq> normalInitial batch
        then [''normal''] else [])"

definition createFinalizeBatchSchema ::
  "Batch \<Rightarrow> string \<times> count_inputs \<Rightarrow> (string \<times> counts) submit" where
  "createFinalizeBatchSchema batch d =
     (let fieldIssues = string_min1 ''returnDatetime'' (fst d) @ count_field_issues (snd d)
      in case coerced_counts (snd d) of
           None \<Rightarrow> Rejected (getZodFieldErrors fieldIssues)
         | Some c \<Rightarrow>
             (let issues = fieldIssues @ sum_issues batch c
              in if issues = [] then Accepted (fst d, c)
                 else Rejected (getZodFieldErrors issues)))"

text \<open>
  \<^verbatim>\<open>createEditBatchSchema\<close> is \<^verbatim>\<open>createFinalizeBatchSchema(batch).omit({ returnDatetime: true })\<close>:
  \<^verbatim>\<open>omit\<close> is called on the result of \<^verbatim>\<open>superRefine\<close>. The schema library is not part
  of the repository and its release is not recorded there, so the release is a
  parameter of the model. In the releases 3.x the result of \<^verbatim>\<open>superRefine\<close> is an
  effects object, which has no \<^verbatim>\<open>omit\<close>, and the call throws a \<^verbatim>\<open>TypeError\<close>. In the
  releases 4.0 to 4.2 \<^verbatim>\<open>omit\<close> builds the object again without the key and without
  the checks of the object, so the check of the sums is gone and the checks of the
  six fields stay. From the release 4.3 on \<^verbatim>\<open>omit\<close> on an object with a refinement
  throws. The schema is built inside the handler, so the exception leaves the handler.
\<close>

datatype zod_release = Zod_3 | Zod_4_0 | Zod_4_3

definition createEditBatchSchema :: "zod_release \<Rightarrow> Batch \<Rightarrow> count_inputs \<Rightarrow> counts submit" where
  "createEditBatchSchema zod batch d =
     (case zod of
        Zod_3 \<Rightarrow> Thrown
      | Zod_4_3 \<Rightarrow> Thrown
      | Zod_4_0 \<Rightarrow>
          (let fieldIssues = count_field_issues d
           in case coerced_counts d of
                None \<Rightarrow> Rejected (getZodFieldErrors fieldIssues)
              | Some c \<Rightarrow>
                  if fieldIssues = [] then Accepted c
                  else Rejected (getZodFieldErrors fieldIssues)))"

section \<open>Form handlers\<close>

text \<open>
  Dates are strings in the store. \<open>getTime s\<close> stands for \<^verbatim>\<open>new Date(s).getTime()\<close>,
  in milliseconds, with \<open>None\<close> for \<^verbatim>\<open>NaN\<close> (an invalid date), and \<open>toISOString t\<close> for
  the ISO text of the instant \<open>t\<close>; both belong to the language and are parameters of
  the model. \<^verbatim>\<open>new Date(s).toISOString()\<close> throws a \<^verbatim>\<open>RangeError\<close> on an invalid date.
\<close>

definition NewBatchModal_handleSubmit :: "new_batch_form \<Rightarrow> string \<Rightarrow> Batch submit" where
  "NewBatchModal_handleSubmit d descr = newBatchSchema d descr"

definition totalPaidItems :: "counts \<Rightarrow> int" where
  "totalPaidItems c =
     c_pgfnDelivered c + c_pgfnReturned c + c_normalDelivered c + c_normalReturned c"

definition spread_counts :: "counts \<Rightarrow> Batch \<Rightarrow> Batch" where
  "spread_counts c batch =
     batch \<lparr> pgfnDelivered := Some (c_pgfnDelivered c),
             pgfnReturned := Some (c_pgfnReturned c),
             pgfnAbsent := Some (c_pgfnAbsent c),
             normalDelivered := Some (c_normalDelivered c),
             normalReturned := Some (c_normalReturned c),
             normalAbsent := Some (c_normalAbsent c) \<rparr>"

definition FinalizeBatchModal_handleSubmit ::
  "(string \<Rightarrow> int option) \<Rightarrow> (int \<Rightarrow> string) \<Rightarrow> Batch \<Rightarrow> string \<times> count_inputs \<Rightarrow> Batch submit" where
  "FinalizeBatchModal_handleSubmit getTime toISOString batch d =
     (case createFinalizeBatchSchema batch d of
        Rejected ks \<Rightarrow> Rejected ks
      | Thrown \<Rightarrow> Thrown
      | Accepted (rd, c) \<Rightarrow>
          (case getTime rd of
             None \<Rightarrow> Thrown
           | Some t \<Rightarrow>
               Accepted ((spread_counts c
                           (batch \<lparr> status := Finalized, returnDatetime := Some (toISOString t) \<rparr>))
                         \<lparr> totalValue := Some (totalPaidItems c * DELIVERY_FEE) \<rparr>)))"

definition EditBatchModal_handleSubmit :: "zod_release \<Rightarrow> Batch \<Rightarrow> count_inputs \<Rightarrow> Batch submit" where
  "EditBatchModal_handleSubmit zod batch d =
     (case createEditBatchSchema zod batch d of
        Rejected ks \<Rightarrow> Rejected ks
      | Thrown \<Rightarrow> Thrown
      | Accepted c \<Rightarrow>
          Accepted ((spread_counts c batch) \<lparr> totalValue := Some (totalPaidItems c * DELIVERY_FEE) \<rparr>))"

definition AddDeliveryPersonView_handleSubmit :: "DeliveryPerson \<Rightarrow> DeliveryPerson submit" where
  "AddDeliveryPersonView_handleSubmit personData = deliveryPersonSchema personData"

definition EditDeliveryPersonModal_handleSubmit ::
  "DeliveryPerson \<Rightarrow> DeliveryPerson \<Rightarrow> DeliveryPerson submit" where
  "EditDeliveryPersonModal_handleSubmit person d =
     (case deliveryPersonSchema d of
        Rejected ks \<Rightarrow> Rejected ks
      | Thrown \<Rightarrow> Thrown
      | Accepted r \<Rightarrow> Accepted (r \<lparr> person_id := person_id person \<rparr>))"

section \<open>Store operations\<close>

text \<open>
  \<^verbatim>\<open>Array.prototype.sort\<close> with a comparison function: a stable sort, written as an
  insertion sort. An element goes before the first element it does not compare
  greater than, so elements that compare equal keep their order.
\<close>

fun insort_cmp :: "('a \<Rightarrow> 'a \<Rightarrow> int) \<Rightarrow> 'a \<Rightarrow> 'a list \<Rightarrow> 'a list" where
  "insort_cmp c x [] = [x]"
| "insort_cmp c x (y # ys) = (if c x y \<le> 0 then x # y # ys else y # insort_cmp c x ys)"

definition sort_cmp :: "('a \<Rightarrow> 'a \<Rightarrow> int) \<Rightarrow> 'a list \<Rightarrow> 'a list" where
  "sort_cmp c xs = foldr (insort_cmp c) xs []"

text \<open>
  The callbacks of \<^verbatim>\<open>App\<close>. Each is the updater it passes to \<^verbatim>\<open>setBatches\<close> or
  \<^verbatim>\<open>setDeliveryPeople\<close>; \<open>nowStr\<close> is \<^verbatim>\<open>Date.now().toString()\<close> and \<open>localeCompare\<close> is
  the string comparison of the language.
\<close>

definition addDeliveryPerson ::
  "(string \<Rightarrow> string \<Rightarrow> int) \<Rightarrow> string \<Rightarrow> DeliveryPerson \<Rightarrow> DeliveryPerson list \<Rightarrow> DeliveryPerson list" where
  "addDeliveryPerson localeCompare nowStr person prev =
     sort_cmp (\<lambda>a b. localeCompare (name a) (name b)) (prev @ [person \<lparr> person_id := nowStr \<rparr>])"

definition updateDeliveryPerson ::
  "(string \<Rightarrow> string \<Rightarrow> int) \<Rightarrow> DeliveryPerson \<Rightarrow> DeliveryPerson list \<Rightarrow> DeliveryPerson list" where
  "updateDeliveryPerson localeCompare updatedPerson prev =
     sort_cmp (\<lambda>a b. localeCompare (name a) (name b))
       (map (\<lambda>p. if person_id p = person_id updatedPerson then updatedPerson else p) prev)"

definition deleteDeliveryPerson :: "string \<Rightarrow> app_state \<Rightarrow> app_state" where
  "deleteDeliveryPerson personId st =
     st \<lparr> deliveryPeople := filter (\<lambda>p. person_id p \<noteq> personId) (deliveryPeople st),
          batches := filter (\<lambda>b. deliveryPersonId b \<noteq> personId) (batches st) \<rparr>"

definition addBatch :: "string \<Rightarrow> Batch \<Rightarrow> Batch list \<Rightarrow> Batch list" where
  "addBatch nowStr batch prev = (batch \<lparr> batch_id := nowStr \<rparr>) # prev"

definition updateBatch :: "Batch \<Rightarrow> Batch list \<Rightarrow> Batch list" where
  "updateBatch updatedBatch prev =
     map (\<lambda>b. if batch_id b = batch_id updatedBatch then updatedBatch else b) prev"

definition deleteBatch :: "string \<Rightarrow> Batch list \<Rightarrow> Batch list" where
  "deleteBatch batchId prev = filter (\<lambda>b. batch_id b \<noteq> batchId) prev"

text \<open>
  What the caller of \<^verbatim>\<open>updateBatch\<close> and \<^verbatim>\<open>deleteBatch\<close> observes: the callbacks have
  no \<^verbatim>\<open>throw\<close> and return no value, so a call returns normally, with the store
  updated. \<open>Failed\<close> is the outcome the callbacks do not have.
\<close>

datatype call_result = Returned | Failed string

definition call_updateBatch :: "Batch \<Rightarrow> app_state \<Rightarrow> call_result \<times> app_state" where
  "call_updateBatch updatedBatch st =
     (Returned, st \<lparr> batches := updateBatch updatedBatch (batches st) \<rparr>)"

definition call_deleteBatch :: "string \<Rightarrow> app_state \<Rightarrow> call_result \<times> app_state" where
  "call_deleteBatch batchId st =
     (Returned, st \<lparr> batches := deleteBatch batchId (batches st) \<rparr>)"

section \<open>Events of the application\<close>

text \<open>
  The modals are wired to the callbacks in the render of \<^verbatim>\<open>App\<close>: the new-batch form
  to \<^verbatim>\<open>addBatch\<close>, the finalize and the edit form to \<^verbatim>\<open>updateBatch\<close>. A submit that is
  rejected or throws calls no callback, and the store stays as it is.
\<close>

datatype event =
    AddPerson string DeliveryPerson
  | EditPerson DeliveryPerson DeliveryPerson
  | DeletePerson string
  | NewBatch string new_batch_form string
  | FinalizeBatch Batch "string \<times> count_inputs"
  | EditBatch Batch count_inputs
  | DeleteBatch string

fun apply_event ::
  "zod_release \<Rightarrow> (string \<Rightarrow> int option) \<Rightarrow> (int \<Rightarrow> string) \<Rightarrow> (string \<Rightarrow> string \<Rightarrow> int) \<Rightarrow> event \<Rightarrow> app_state \<Rightarrow> app_state" where
  "apply_event zod getTime toISOString localeCompare (AddPerson nowStr d) st =
     (case AddDeliveryPersonView_handleSubmit d of
        Accepted p \<Rightarrow> st \<lparr> deliveryPeople := addDeliveryPerson localeCompare nowStr p (deliveryPeople st) \<rparr>
      | _ \<Rightarrow> st)"
| "apply_event zod getTime toISOString localeCompare (EditPerson person d) st =
     (case EditDeliveryPersonModal_handleSubmit person d of
        Accepted p \<Rightarrow> st \<lparr> deliveryPeople := updateDeliveryPerson localeCompare p (deliveryPeople st) \<rparr>
      | _ \<Rightarrow> st)"
| "apply_event zod getTime toISOString localeCompare (DeletePerson personId) st =
     deleteDeliveryPerson personId st"
| "apply_event zod getTime toISOString localeCompare (NewBatch nowStr d descr) st =
     (case NewBatchModal_handleSubmit d descr of
        Accepted b \<Rightarrow> st \<lparr> batches := addBatch nowStr b (batches st) \<rparr>
      | _ \<Rightarrow> st)"
| "apply_event zod getTime toISOString localeCompare (FinalizeBatch batch d) st =
     (case FinalizeBatchModal_handleSubmit getTime toISOString batch d of
        Accepted b \<Rightarrow> st \<lparr> batches := updateBatch b (batches st) \<rparr>
      | _ \<Rightarrow> st)"
| "apply_event zod getTime toISOString localeCompare (EditBatch batch d) st =
     (case EditBatchModal_handleSubmit zod batch d of
        Accepted b \<Rightarrow> st \<lparr> batches := updateBatch b (batches st) \<rparr>
      | _ \<Rightarrow> st)"
| "apply_event zod getTime toISOString localeCompare (DeleteBatch batchId) st =
     st \<lparr> batches := deleteBatch batchId (batches st) \<rparr>"

text \<open>
  A form is opened on an entity of the store: the batch of the finalize and of the
  edit form is the selected batch, the person of the edit form is the selected person.
\<close>

fun enabled :: "event \<Rightarrow> app_state \<Rightarrow> bool" where
  "enabled (FinalizeBatch batch d) st = (batch \<in> set (batches st))"
| "enabled (EditBatch batch d) st = (batch \<in> set (batches st))"
| "enabled (EditPerson person d) st = (person \<in> set (deliveryPeople st))"
| "enabled e st = True"

text \<open>
  The identifier of a new batch is the clock reading \<^verbatim>\<open>Date.now()\<close> as text: \<open>fresh_id\<close>
  says that it is not the identifier of a batch of the store.
\<close>

fun fresh_id :: "event \<Rightarrow> app_state \<Rightarrow> bool" where
  "fresh_id (NewBatch nowStr d descr) st = (nowStr \<notin> batch_id ` set (batches st))"
| "fresh_id e st = True"

text \<open>The stores the application reaches from the empty store.\<close>

inductive reachable ::
  "zod_release \<Rightarrow> (string \<Rightarrow> int option) \<Rightarrow> (int \<Rightarrow> string) \<Rightarrow> (string \<Rightarrow> string \<Rightarrow> int) \<Rightarrow> app_state \<Rightarrow> bool"
  for zod getTime toISOString localeCompare where
  initial: "reachable zod getTime toISOString localeCompare \<lparr> batches = [], deliveryPeople = [] \<rparr>"
| step: "reachable zod getTime toISOString localeCompare st \<Longrightarrow> enabled e st \<Longrightarrow>
         reachable zod getTime toISOString localeCompare (apply_event zod getTime toISOString localeCompare e st)"

text \<open>
  The dashboard opens the finalize form for a pending batch and the details for any
  other; the archive always opens the details.
\<close>

datatype modal = newBatch | finalizeBatch | batchDetails | editBatch | editPerson | confirm

definition DashboardView_onBatchClick :: "Batch \<Rightarrow> modal" where
  "DashboardView_onBatchClick b = (if status b = Pending then finalizeBatch else batchDetails)"

definition ArchiveView_onBatchClick :: "Batch \<Rightarrow> modal" where
  "ArchiveView_onBatchClick b = batchDetails"

section \<open>Temporal partition\<close>

text \<open>
  The test of the partition: the batch is finalized, its \<^verbatim>\<open>returnDatetime\<close> is a non-empty
  string, and the days since then exceed the delay. The difference of an invalid date
  is \<^verbatim>\<open>NaN\<close>, which exceeds nothing. \<open>now\<close> is \<^verbatim>\<open>new Date().getTime()\<close>.
\<close>

definition diffDays :: "(string \<Rightarrow> int option) \<Rightarrow> int \<Rightarrow> string \<Rightarrow> real option" where
  "diffDays getTime now s =
     (case getTime s of
        None \<Rightarrow> None
      | Some t \<Rightarrow> Some (real_of_int (now - t) / (1000 * 60 * 60 * 24)))"

definition is_archived :: "(string \<Rightarrow> int option) \<Rightarrow> int \<Rightarrow> Batch \<Rightarrow> bool" where
  "is_archived getTime now batch =
     (case returnDatetime batch of
        None \<Rightarrow> False
      | Some s \<Rightarrow>
          status batch = Finalized \<and> s \<noteq> [] \<and>
          (case diffDays getTime now s of
             None \<Rightarrow> False
           | Some d \<Rightarrow> d > real_of_int ARCHIVE_DELAY_DAYS))"

definition partition_step ::
  "(string \<Rightarrow> int option) \<Rightarrow> int \<Rightarrow> Batch \<Rightarrow> Batch list \<times> Batch list \<Rightarrow> Batch list \<times> Batch list" where
  "partition_step getTime now batch acc =
     (if is_archived getTime now batch then (fst acc, snd acc @ [batch])
      else (fst acc @ [batch], snd acc))"

text \<open>
  \<^verbatim>\<open>sortFn\<close>: later departures first. A difference with an invalid date is \<^verbatim>\<open>NaN\<close>,
  which the sort takes as \<open>0\<close>.
\<close>

definition sortFn :: "(string \<Rightarrow> int option) \<Rightarrow> Batch \<Rightarrow> Batch \<Rightarrow> int" where
  "sortFn getTime a b =
     (case (getTime (departureDatetime b), getTime (departureDatetime a)) of
        (Some tb, Some ta) \<Rightarrow> tb - ta
      | _ \<Rightarrow> 0)"

definition partitionBatches ::
  "(string \<Rightarrow> int option) \<Rightarrow> int \<Rightarrow> Batch list \<Rightarrow> Batch list \<times> Batch list" where
  "partitionBatches getTime now bs =
     (let acc = fold (partition_step getTime now) bs ([], [])
      in (sort_cmp (sortFn getTime) (fst acc), sort_cmp (sortFn getTime) (snd acc)))"

definition dashboardBatches :: "(string \<Rightarrow> int option) \<Rightarrow> int \<Rightarrow> Batch list \<Rightarrow> Batch list" where
  "dashboardBatches getTime now bs = fst (partitionBatches getTime now bs)"

definition archivedBatches :: "(string \<Rightarrow> int option) \<Rightarrow> int \<Rightarrow> Batch list \<Rightarrow> Batch list" where
  "archivedBatches getTime now bs = snd (partitionBatches getTime now bs)"

section \<open>Aggregation\<close>

record summary =
  totalGains :: int
  totalDelivered :: int
  totalReturned :: int
  totalAbsent :: int

record perf =
  gains :: int
  delivered :: int
  returned :: int
  perf_name :: string

text \<open>\<^verbatim>\<open>x || 0\<close> on an optional number.\<close>

definition or0 :: "int option \<Rightarrow> int" where
  "or0 v = (case v of None \<Rightarrow> 0 | Some n \<Rightarrow> (if n \<noteq> 0 then n else 0))"

definition init_performance :: "DeliveryPerson list \<Rightarrow> (string \<rightharpoonup> perf)" where
  "init_performance people =
     fold (\<lambda>p m. m(person_id p \<mapsto> \<lparr> gains = 0, delivered = 0, returned = 0, perf_name = name p \<rparr>))
       people Map.empty"

text \<open>
  The body of the loop over the batches. Its guard is
  \<^verbatim>\<open>batch.status === 'finalized' && batch.totalValue\<close>: a total that is absent or zero
  is falsy and the batch is skipped.
\<close>

definition summary_step :: "Batch \<Rightarrow> summary \<times> (string \<rightharpoonup> perf) \<Rightarrow> summary \<times> (string \<rightharpoonup> perf)" where
  "summary_step batch acc =
     (case totalValue batch of
        None \<Rightarrow> acc
      | Some tv \<Rightarrow>
          if status batch = Finalized \<and> tv \<noteq> 0 then
            (let d = or0 (pgfnDelivered batch) + or0 (normalDelivered batch);
                 r = or0 (pgfnReturned batch) + or0 (normalReturned batch);
                 s = fst acc;
                 s' = s \<lparr> totalGains := totalGains s + tv,
                          totalDelivered := totalDelivered s + d,
                          totalReturned := totalReturned s + r,
                          totalAbsent := totalAbsent s + (or0 (pgfnAbsent batch) + or0 (normalAbsent batch)) \<rparr>;
                 m = snd acc
             in (s', case m (deliveryPersonId batch) of
                       None \<Rightarrow> m
                     | Some e \<Rightarrow> m(deliveryPersonId batch \<mapsto>
                                    e \<lparr> gains := gains e + tv,
                                        delivered := delivered e + d,
                                        returned := returned e + r \<rparr>)))
          else acc)"

definition summary_performance ::
  "Batch list \<Rightarrow> DeliveryPerson list \<Rightarrow> summary \<times> (string \<rightharpoonup> perf)" where
  "summary_performance dashBatches people =
     fold summary_step dashBatches
       (\<lparr> totalGains = 0, totalDelivered = 0, totalReturned = 0, totalAbsent = 0 \<rparr>,
        init_performance people)"

section \<open>Predicates of the data model\<close>

text \<open>
  The conservation of a stored batch and of the inputs of a form, the non-negativity of
  the stored counts and the payable value of the stored counts.
\<close>

definition sum3 :: "int option \<Rightarrow> int option \<Rightarrow> int option \<Rightarrow> int option" where
  "sum3 a b c =
     (case a of None \<Rightarrow> None | Some x \<Rightarrow>
        (case b of None \<Rightarrow> None | Some y \<Rightarrow>
           (case c of None \<Rightarrow> None | Some z \<Rightarrow> Some (x + y + z))))"

definition conservation :: "Batch \<Rightarrow> bool" where
  "conservation b =
     (sum3 (pgfnDelivered b) (pgfnReturned b) (pgfnAbsent b) = Some (pgfnInitial b) \<and>
      sum3 (normalDelivered b) (normalReturned b) (normalAbsent b) = Some (normalInitial b))"

definition inputs_conserve :: "Batch \<Rightarrow> count_inputs \<Rightarrow> bool" where
  "inputs_conserve batch d =
     (sum3 (in_pgfnDelivered d) (in_pgfnReturned d) (in_pgfnAbsent d) = Some (pgfnInitial batch) \<and>
      sum3 (in_normalDelivered d) (in_normalReturned d) (in_normalAbsent d) = Some (normalInitial batch))"

definition nonneg_opt :: "int option \<Rightarrow> bool" where
  "nonneg_opt v = (case v of None \<Rightarrow> False | Some n \<Rightarrow> 0 \<le> n)"

definition payable :: "Batch \<Rightarrow> int option" where
  "payable b =
     (case (pgfnDelivered b, pgfnReturned b, normalDelivered b, normalReturned b) of
        (Some pd, Some pr, Some nd, Some nr) \<Rightarrow> Some ((pd + pr + nd + nr) * DELIVERY_FEE)
      | _ \<Rightarrow> None)"

definition finalized_fields_ok :: "Batch \<Rightarrow> bool" where
  "finalized_fields_ok b =
     (status b = Finalized \<longrightarrow>
        nonneg_opt (pgfnDelivered b) \<and> nonneg_opt (pgfnReturned b) \<and> nonneg_opt (pgfnAbsent b) \<and>
        nonneg_opt (normalDelivered b) \<and> nonneg_opt (normalReturned b) \<and> nonneg_opt (normalAbsent b) \<and>
        totalValue b = payable b)"

definition counts_ok :: "Batch \<Rightarrow> counts \<Rightarrow> bool" where
  "counts_ok batch c =
     (0 \<le> c_pgfnDelivered c \<and> 0 \<le> c_pgfnReturned c \<and> 0 \<le> c_pgfnAbsent c \<and>
      0 \<le> c_normalDelivered c \<and> 0 \<le> c_normalReturned c \<and> 0 \<le> c_normalAbsent c \<and>
      c_pgfnDelivered c + c_pgfnReturned c + c_pgfnAbsent c = pgfnInitial batch \<and>
      c_normalDelivered c + c_normalReturned c + c_normalAbsent c = normalInitial batch)"


section \<open>A run of the application\<close>

text \<open>
  A courier is added, a batch of ten documents is created for her and finalized with
  seven delivered, two returned and one absent. The instances of the date functions
  know the dates of this run.
\<close>

definition ex_getTime :: "string \<Rightarrow> int option" where
  "ex_getTime s =
     (if s = ''2024-01-08T09:00'' then Some 1704704400000
      else if s = ''2024-01-10T12:00'' then Some 1704888000000
      else if s = ''2024-01-10T12:00:00.000Z'' then Some 1704888000000
      else None)"

definition ex_toISOString :: "int \<Rightarrow> string" where
  "ex_toISOString t =
     (if t = 1704888000000 then ''2024-01-10T12:00:00.000Z'' else ''1970-01-01T00:00:00.000Z'')"

definition ex_localeCompare :: "string \<Rightarrow> string \<Rightarrow> int" where
  "ex_localeCompare a b = int (length a) - int (length b)"

definition ex_person_form :: DeliveryPerson where
  "ex_person_form = \<lparr> person_id = [], name = ''Ana'', cpf = Some [], address = Some [],
     phone = Some [], whatsapp = Some [], pix = Some [], route = Some ''Centro'' \<rparr>"

definition ex_person :: DeliveryPerson where
  "ex_person = ex_person_form \<lparr> person_id := ''C1'' \<rparr>"

definition ex_new_batch_form :: new_batch_form where
  "ex_new_batch_form = \<lparr> f_deliveryPersonId = ''C1'', f_pgfnInitial = Some 10,
     f_normalInitial = Some 0, f_departureDatetime = ''2024-01-08T09:00'',
     f_estimatedReturnDate = ''2024-01-12'' \<rparr>"

definition ex_B1 :: Batch where
  "ex_B1 = \<lparr> batch_id = ''B1'', deliveryPersonId = ''C1'', pgfnInitial = 10, normalInitial = 0,
     departureDatetime = ''2024-01-08T09:00'', estimatedReturnDate = ''2024-01-12'',
     status = Pending, description = ''lote'',
     pgfnDelivered = None, pgfnReturned = None, pgfnAbsent = None,
     normalDelivered = None, normalReturned = None, normalAbsent = None,
     totalValue = None, returnDatetime = None \<rparr>"

definition ex_inputs :: count_inputs where
  "ex_inputs = \<lparr> in_pgfnDelivered = Some 7, in_pgfnReturned = Some 2, in_pgfnAbsent = Some 1,
     in_normalDelivered = Some 0, in_normalReturned = Some 0, in_normalAbsent = Some 0 \<rparr>"

definition ex_bad_inputs :: count_inputs where
  "ex_bad_inputs = \<lparr> in_pgfnDelivered = Some 7, in_pgfnReturned = Some 2, in_pgfnAbsent = Some 0,
     in_normalDelivered = Some 0, in_normalReturned = Some 0, in_normalAbsent = Some 0 \<rparr>"

definition ex_B1_final :: Batch where
  "ex_B1_final = ex_B1 \<lparr> status := Finalized,
     pgfnDelivered := Some 7, pgfnReturned := Some 2, pgfnAbsent := Some 1,
     normalDelivered := Some 0, normalReturned := Some 0, normalAbsent := Some 0,
     totalValue := Some 27, returnDatetime := Some ''2024-01-10T12:00:00.000Z'' \<rparr>"

definition ex_store0 :: app_state where
  "ex_store0 = \<lparr> batches = [], deliveryPeople = [ex_person] \<rparr>"

definition ex_store1 :: app_state where
  "ex_store1 = \<lparr> batches = [ex_B1], deliveryPeople = [ex_person] \<rparr>"

definition ex_store2 :: app_state where
  "ex_store2 = \<lparr> batches = [ex_B1_final], deliveryPeople = [ex_person] \<rparr>"


definition ex_edit_inputs :: count_inputs where
  "ex_edit_inputs = \<lparr> in_pgfnDelivered = Some 5, in_pgfnReturned = Some 3, in_pgfnAbsent = Some 2,
     in_normalDelivered = Some 0, in_normalReturned = Some 0, in_normalAbsent = Some 0 \<rparr>"

definition ex_B1_edited :: Batch where
  "ex_B1_edited = ex_B1_final \<lparr> pgfnDelivered := Some 5, pgfnReturned := Some 3,
     pgfnAbsent := Some 2, totalValue := Some 24 \<rparr>"

definition ex_zero_form :: new_batch_form where
  "ex_zero_form = ex_new_batch_form \<lparr> f_pgfnInitial := Some 0, f_normalInitial := Some 0 \<rparr>"

definition ex_person2 :: DeliveryPerson where
  "ex_person2 = \<lparr> person_id = ''C2'', name = ''Bruno'', cpf = Some [], address = Some [],
     phone = Some [], whatsapp = Some [], pix = Some [], route = Some [] \<rparr>"

definition ex_B2 :: Batch where
  "ex_B2 = ex_B1 \<lparr> batch_id := ''B2'', deliveryPersonId := ''C2'', pgfnInitial := 0, normalInitial := 4 \<rparr>"

definition ex_store3 :: app_state where
  "ex_store3 = \<lparr> batches = [ex_B2, ex_B1_final], deliveryPeople = [ex_person, ex_person2] \<rparr>"

text \<open>
  The delivered, returned and absent documents of a batch, the finalized batches of a
  courier, and the part of a batch that belongs to the courier \<open>k\<close>.
\<close>

definition delivered_of :: "Batch \<Rightarrow> int" where
  "delivered_of b = or0 (pgfnDelivered b) + or0 (normalDelivered b)"

definition returned_of :: "Batch \<Rightarrow> int" where
  "returned_of b = or0 (pgfnReturned b) + or0 (normalReturned b)"

definition absent_of :: "Batch \<Rightarrow> int" where
  "absent_of b = or0 (pgfnAbsent b) + or0 (normalAbsent b)"

definition courier_finalized :: "string \<Rightarrow> Batch list \<Rightarrow> Batch list" where
  "courier_finalized k bs = filter (\<lambda>b. status b = Finalized \<and> deliveryPersonId b = k) bs"

definition share :: "string \<Rightarrow> (Batch \<Rightarrow> int) \<Rightarrow> Batch \<Rightarrow> int" where
  "share k f b = (if status b = Finalized \<and> deliveryPersonId b = k then f b else 0)"

text \<open>
  A second batch of the same courier, finalized with all ten documents absent.
\<close>

definition ex_B3 :: Batch where
  "ex_B3 = ex_B1 \<lparr> batch_id := ''B3'' \<rparr>"

definition ex_absent_inputs :: count_inputs where
  "ex_absent_inputs = \<lparr> in_pgfnDelivered = Some 0, in_pgfnReturned = Some 0, in_pgfnAbsent = Some 10,
     in_normalDelivered = Some 0, in_normalReturned = Some 0, in_normalAbsent = Some 0 \<rparr>"

definition ex_B3_final :: Batch where
  "ex_B3_final = ex_B3 \<lparr> status := Finalized,
     pgfnDelivered := Some 0, pgfnReturned := Some 0, pgfnAbsent := Some 10,
     normalDelivered := Some 0, normalReturned := Some 0, normalAbsent := Some 0,
     totalValue := Some 0, returnDatetime := Some ''2024-01-10T12:00:00.000Z'' \<rparr>"

definition ex_store4 :: app_state where
  "ex_store4 = \<lparr> batches = [ex_B3_final, ex_B1_final], deliveryPeople = [ex_person] \<rparr>"

text \<open>
  Counts that pass the checks of the six fields, and a finalized batch without a total
  value (absent or zero) that has nothing delivered and nothing returned.
\<close>

definition counts_nonneg :: "counts \<Rightarrow> bool" where
  "counts_nonneg c =
     (0 \<le> c_pgfnDelivered c \<and> 0 \<le> c_pgfnReturned c \<and> 0 \<le> c_pgfnAbsent c \<and>
      0 \<le> c_normalDelivered c \<and> 0 \<le> c_normalReturned c \<and> 0 \<le> c_normalAbsent c)"

definition unvalued_is_empty :: "Batch \<Rightarrow> bool" where
  "unvalued_is_empty b =
     (status b = Finalized \<and> (totalValue b = None \<or> totalValue b = Some 0) \<longrightarrow>
        delivered_of b = 0 \<and> returned_of b = 0)"

text \<open>
  The finalized batch of the run after an edit with seven delivered, two returned and
  none absent, and the store that holds it.
\<close>

definition ex_B1_broken :: Batch where
  "ex_B1_broken = ex_B1_final \<lparr> pgfnAbsent := Some 0 \<rparr>"

definition ex_store_broken :: app_state where
  "ex_store_broken = \<lparr> batches = [ex_B1_broken], deliveryPeople = [ex_person] \<rparr>"

text \<open>The finalized batch of the run without its total value.\<close>

definition ex_B1_no_total :: Batch where
  "ex_B1_no_total = ex_B1_final \<lparr> totalValue := None \<rparr>"

text \<open>
  A batch of the second courier created at the clock reading of the first batch, so
  with its identifier, and the stores with both.
\<close>

definition ex_other_form :: new_batch_form where
  "ex_other_form = ex_new_batch_form \<lparr> f_deliveryPersonId := ''C2'', f_pgfnInitial := Some 0,
     f_normalInitial := Some 4 \<rparr>"

definition ex_Q :: Batch where
  "ex_Q = ex_B2 \<lparr> batch_id := ''B1'' \<rparr>"

definition ex_store_dup :: app_state where
  "ex_store_dup = \<lparr> batches = [ex_Q, ex_B1], deliveryPeople = [ex_person] \<rparr>"

definition ex_store5 :: app_state where
  "ex_store5 = \<lparr> batches = [ex_B2, ex_B1], deliveryPeople = [ex_person] \<rparr>"

text \<open>
  The first batch created once more at the same clock reading after it was
  finalized, and the pending batch after an edit with the counts of the run.
\<close>

definition ex_store_mixed :: app_state where
  "ex_store_mixed = \<lparr> batches = [ex_B1, ex_B1_final], deliveryPeople = [ex_person] \<rparr>"

definition ex_B1_counted :: Batch where
  "ex_B1_counted = ex_B1 \<lparr> pgfnDelivered := Some 7, pgfnReturned := Some 2, pgfnAbsent := Some 1,
     normalDelivered := Some 0, normalReturned := Some 0, normalAbsent := Some 0,
     totalValue := Some 27 \<rparr>"

section \<open>Schemas and handlers\<close>

lemma getZodFieldErrors_Nil [simp]: "getZodFieldErrors xs = [] \<longleftrightarrow> xs = []"
  by (simp add: getZodFieldErrors_def)

lemma number_min0_Nil: "number_min0 k v = [] \<longleftrightarrow> (\<exists>n. v = Some n \<and> 0 \<le> n)"
  by (auto simp: number_min0_def split: option.splits)

lemma coerced_counts_Some:
  "coerced_counts d = Some c \<longleftrightarrow>
     in_pgfnDelivered d = Some (c_pgfnDelivered c) \<and> in_pgfnReturned d = Some (c_pgfnReturned c) \<and>
     in_pgfnAbsent d = Some (c_pgfnAbsent c) \<and> in_normalDelivered d = Some (c_normalDelivered c) \<and>
     in_normalReturned d = Some (c_normalReturned c) \<and> in_normalAbsent d = Some (c_normalAbsent c)"
  by (cases c) (auto simp: coerced_counts_def split: option.splits)

lemma sum_issues_Nil:
  "sum_issues batch c = [] \<longleftrightarrow>
     c_pgfnDelivered c + c_pgfnReturned c + c_pgfnAbsent c = pgfnInitial batch \<and>
     c_normalDelivered c + c_normalReturned c + c_normalAbsent c = normalInitial batch"
  by (simp add: sum_issues_def)

lemma count_field_issues_Nil:
  "coerced_counts d = Some c \<Longrightarrow>
   count_field_issues d = [] \<longleftrightarrow>
     (0 \<le> c_pgfnDelivered c \<and> 0 \<le> c_pgfnReturned c \<and> 0 \<le> c_pgfnAbsent c \<and>
      0 \<le> c_normalDelivered c \<and> 0 \<le> c_normalReturned c \<and> 0 \<le> c_normalAbsent c)"
  by (simp add: coerced_counts_Some count_field_issues_def number_min0_Nil)

lemma counts_ok_nonneg: "counts_ok batch c \<Longrightarrow> counts_nonneg c"
  by (simp add: counts_ok_def counts_nonneg_def)

lemma createEditBatchSchema_Accepted:
  "createEditBatchSchema zod batch d = Accepted c \<longleftrightarrow>
     zod = Zod_4_0 \<and> coerced_counts d = Some c \<and> counts_nonneg c"
  by (cases zod)
     (auto simp: createEditBatchSchema_def Let_def counts_nonneg_def count_field_issues_Nil
           split: option.splits)

lemma createEditBatchSchema_Thrown:
  "zod \<noteq> Zod_4_0 \<Longrightarrow> createEditBatchSchema zod batch d = Thrown"
  by (cases zod) (simp_all add: createEditBatchSchema_def)

lemma createFinalizeBatchSchema_Accepted:
  "createFinalizeBatchSchema batch d = Accepted (rd, c) \<longleftrightarrow>
     rd = fst d \<and> rd \<noteq> [] \<and> coerced_counts (snd d) = Some c \<and> counts_ok batch c"
  by (auto simp: createFinalizeBatchSchema_def Let_def counts_ok_def sum_issues_Nil
                 count_field_issues_Nil string_min1_def
           split: option.splits)

lemma inputs_conserve_coerced:
  "coerced_counts d = Some c \<Longrightarrow> counts_ok batch c \<Longrightarrow> inputs_conserve batch d"
  by (simp add: coerced_counts_Some counts_ok_def inputs_conserve_def sum3_def)

lemma schema_not_Thrown [simp]: "createFinalizeBatchSchema batch d \<noteq> Thrown"
  by (auto simp: createFinalizeBatchSchema_def Let_def split: option.splits)

text \<open>The batch that a successful finalize passes on.\<close>

lemma FinalizeBatchModal_Accepted:
  "FinalizeBatchModal_handleSubmit getTime toISOString batch d = Accepted u \<longleftrightarrow>
     (\<exists>c t. fst d \<noteq> [] \<and> coerced_counts (snd d) = Some c \<and> counts_ok batch c \<and>
            getTime (fst d) = Some t \<and>
            u = (spread_counts c (batch \<lparr> status := Finalized, returnDatetime := Some (toISOString t) \<rparr>))
                  \<lparr> totalValue := Some (totalPaidItems c * DELIVERY_FEE) \<rparr>)"
  (is "?L \<longleftrightarrow> ?R")
proof
  assume ?L
  then show ?R
    by (auto simp: FinalizeBatchModal_handleSubmit_def createFinalizeBatchSchema_Accepted
             split: submit.splits option.splits prod.splits)
next
  assume ?R
  then obtain c t where h: "fst d \<noteq> []" "coerced_counts (snd d) = Some c" "counts_ok batch c"
      "getTime (fst d) = Some t"
      "u = (spread_counts c (batch \<lparr> status := Finalized, returnDatetime := Some (toISOString t) \<rparr>))
                  \<lparr> totalValue := Some (totalPaidItems c * DELIVERY_FEE) \<rparr>"
    by blast
  from h(1-3) have "createFinalizeBatchSchema batch d = Accepted (fst d, c)"
    by (simp add: createFinalizeBatchSchema_Accepted)
  with h(4,5) show ?L
    by (simp add: FinalizeBatchModal_handleSubmit_def)
qed

text \<open>
  The batch that a successful edit passes on. There is one in the releases 4.0 to 4.2
  only, and the sums of its counts are not checked.
\<close>

lemma EditBatchModal_Accepted:
  "EditBatchModal_handleSubmit zod batch d = Accepted u \<longleftrightarrow>
     (\<exists>c. zod = Zod_4_0 \<and> coerced_counts d = Some c \<and> counts_nonneg c \<and>
          u = (spread_counts c batch) \<lparr> totalValue := Some (totalPaidItems c * DELIVERY_FEE) \<rparr>)"
  (is "?L \<longleftrightarrow> ?R")
proof
  assume ?L
  then show ?R
    by (auto simp: EditBatchModal_handleSubmit_def createEditBatchSchema_Accepted
             split: submit.splits)
next
  assume ?R
  then obtain c where h: "zod = Zod_4_0" "coerced_counts d = Some c" "counts_nonneg c"
      "u = (spread_counts c batch) \<lparr> totalValue := Some (totalPaidItems c * DELIVERY_FEE) \<rparr>"
    by blast
  from h(1-3) have "createEditBatchSchema zod batch d = Accepted c"
    by (simp add: createEditBatchSchema_Accepted)
  with h(4) show ?L
    by (simp add: EditBatchModal_handleSubmit_def)
qed

lemma EditBatchModal_Thrown:
  "zod \<noteq> Zod_4_0 \<Longrightarrow> EditBatchModal_handleSubmit zod batch d = Thrown"
  by (simp add: EditBatchModal_handleSubmit_def createEditBatchSchema_Thrown)

lemma FinalizeBatchModal_rejects:
  "\<not> inputs_conserve batch (snd d) \<Longrightarrow>
   \<exists>ks. FinalizeBatchModal_handleSubmit getTime toISOString batch d = Rejected ks"
  apply (cases "createFinalizeBatchSchema batch d")
  apply (auto simp: FinalizeBatchModal_handleSubmit_def createFinalizeBatchSchema_Accepted
              dest: inputs_conserve_coerced)
  done

lemma NewBatchModal_Accepted:
  "NewBatchModal_handleSubmit d descr = Accepted b \<Longrightarrow>
     status b = Pending \<and>
     (\<exists>p n. f_pgfnInitial d = Some p \<and> f_normalInitial d = Some n \<and> 0 \<le> p \<and> 0 \<le> n \<and>
            (0 < p \<or> 0 < n) \<and> pgfnInitial b = p \<and> normalInitial b = n)"
  by (auto simp: NewBatchModal_handleSubmit_def newBatchSchema_def Let_def number_min0_Nil
           split: option.splits if_splits)

lemma apply_event_batches_cases:
  assumes "x \<in> set (batches (apply_event zod getTime toISOString localeCompare e st))"
  shows "x \<in> set (batches st)
       \<or> (\<exists>nowStr d descr b. e = NewBatch nowStr d descr \<and>
             NewBatchModal_handleSubmit d descr = Accepted b \<and> x = b \<lparr> batch_id := nowStr \<rparr>)
       \<or> (\<exists>batch d. e = FinalizeBatch batch d \<and>
             FinalizeBatchModal_handleSubmit getTime toISOString batch d = Accepted x)
       \<or> (\<exists>batch d. e = EditBatch batch d \<and> EditBatchModal_handleSubmit zod batch d = Accepted x)"
  using assms
  by (cases e)
     (auto simp: deleteDeliveryPerson_def addBatch_def updateBatch_def deleteBatch_def
           split: submit.splits if_splits)

lemma spread_counts_conservation:
  "counts_ok batch c \<Longrightarrow>
   conservation ((spread_counts c (batch \<lparr> status := s, returnDatetime := r \<rparr>)) \<lparr> totalValue := v \<rparr>)"
  by (simp add: counts_ok_def conservation_def spread_counts_def sum3_def)

lemma spread_counts_fields_ok:
  "counts_nonneg c \<Longrightarrow>
   finalized_fields_ok ((spread_counts c (batch \<lparr> status := s, returnDatetime := r \<rparr>))
      \<lparr> totalValue := Some (totalPaidItems c * DELIVERY_FEE) \<rparr>)"
  "counts_nonneg c \<Longrightarrow>
   finalized_fields_ok ((spread_counts c batch) \<lparr> totalValue := Some (totalPaidItems c * DELIVERY_FEE) \<rparr>)"
  by (simp_all add: counts_nonneg_def finalized_fields_ok_def spread_counts_def nonneg_opt_def
        payable_def totalPaidItems_def)

text \<open>
  In every release, a finalized batch of a store that the application reaches from the
  empty store has non-negative counts and the payable value of its counts.
\<close>

lemma reachable_finalized_ok:
  assumes "reachable zod getTime toISOString localeCompare st" "b \<in> set (batches st)"
    "status b = Finalized"
  shows "finalized_fields_ok b"
  using assms
proof (induction arbitrary: b rule: reachable.induct)
  case initial
  then show ?case by simp
next
  case (step st e)
  from apply_event_batches_cases [OF step.prems(1)]
  show ?case
  proof (elim disjE exE conjE)
    assume "b \<in> set (batches st)"
    then show ?thesis using step.IH step.prems(2) by blast
  next
    fix nowStr d descr nb
    assume "NewBatchModal_handleSubmit d descr = Accepted nb" "b = nb \<lparr> batch_id := nowStr \<rparr>"
    then have "status b = Pending" by (auto dest: NewBatchModal_Accepted)
    with step.prems(2) show ?thesis by simp
  next
    fix batch d
    assume "FinalizeBatchModal_handleSubmit getTime toISOString batch d = Accepted b"
    then show ?thesis
      by (auto simp: FinalizeBatchModal_Accepted spread_counts_fields_ok counts_ok_nonneg)
  next
    fix batch d
    assume "EditBatchModal_handleSubmit zod batch d = Accepted b"
    then show ?thesis
      by (auto simp: EditBatchModal_Accepted spread_counts_fields_ok)
  qed
qed

text \<open>
  In the releases where the edit form throws, the finalize form is the only one that
  stores counts, and the finalized batches of such a store conserve.
\<close>

lemma reachable_conserves_without_edit:
  assumes "reachable zod getTime toISOString localeCompare st" "zod \<noteq> Zod_4_0"
    "b \<in> set (batches st)" "status b = Finalized"
  shows "conservation b"
  using assms
proof (induction arbitrary: b rule: reachable.induct)
  case initial
  then show ?case by simp
next
  case (step st e)
  from apply_event_batches_cases [OF step.prems(2)]
  show ?case
  proof (elim disjE exE conjE)
    assume "b \<in> set (batches st)"
    then show ?thesis using step.IH step.prems(1,3) by blast
  next
    fix nowStr d descr nb
    assume "NewBatchModal_handleSubmit d descr = Accepted nb" "b = nb \<lparr> batch_id := nowStr \<rparr>"
    then have "status b = Pending" by (auto dest: NewBatchModal_Accepted)
    with step.prems(3) show ?thesis by simp
  next
    fix batch d
    assume "FinalizeBatchModal_handleSubmit getTime toISOString batch d = Accepted b"
    then show ?thesis
      by (auto simp: FinalizeBatchModal_Accepted spread_counts_conservation)
  next
    fix batch d
    assume "EditBatchModal_handleSubmit zod batch d = Accepted b"
    with step.prems(1) show ?thesis
      by (simp add: EditBatchModal_Thrown)
  qed
qed

lemma rejected_event_keeps_store:
  "FinalizeBatchModal_handleSubmit getTime toISOString batch d = Rejected ks \<Longrightarrow>
     apply_event zod getTime toISOString localeCompare (FinalizeBatch batch d) st = st"
  "EditBatchModal_handleSubmit zod batch c = Rejected ks \<Longrightarrow>
     apply_event zod getTime toISOString localeCompare (EditBatch batch c) st = st"
  "NewBatchModal_handleSubmit f descr = Rejected ks \<Longrightarrow>
     apply_event zod getTime toISOString localeCompare (NewBatch nowStr f descr) st = st"
  by simp_all

text \<open>
  A finalize whose counts break one of the two equations is rejected, and the store
  stays as it was.
\<close>

lemma finalize_rejects_broken_counts:
  assumes "\<not> inputs_conserve batch d"
  shows "(\<exists>ks. FinalizeBatchModal_handleSubmit getTime toISOString batch (rd, d) = Rejected ks) \<and>
         apply_event zod getTime toISOString localeCompare (FinalizeBatch batch (rd, d)) st = st"
proof -
  from assms obtain ks where
    k: "FinalizeBatchModal_handleSubmit getTime toISOString batch (rd, d) = Rejected ks"
    using FinalizeBatchModal_rejects [of batch "(rd, d)"] by auto
  from k have "apply_event zod getTime toISOString localeCompare (FinalizeBatch batch (rd, d)) st = st"
    by (rule rejected_event_keeps_store)
  with k show ?thesis by blast
qed

section \<open>The run is a run of the application\<close>

lemma ex_step0:
  "apply_event zod ex_getTime ex_toISOString ex_localeCompare (AddPerson ''C1'' ex_person_form)
     \<lparr> batches = [], deliveryPeople = [] \<rparr> = ex_store0"
  by (simp add: ex_store0_def ex_person_def ex_person_form_def AddDeliveryPersonView_handleSubmit_def
        deliveryPersonSchema_def string_min1_def addDeliveryPerson_def sort_cmp_def)

lemma ex_step1:
  "apply_event zod ex_getTime ex_toISOString ex_localeCompare (NewBatch ''B1'' ex_new_batch_form ''lote'')
     ex_store0 = ex_store1"
  by (simp add: ex_store0_def ex_store1_def ex_new_batch_form_def ex_B1_def
        NewBatchModal_handleSubmit_def newBatchSchema_def string_min1_def number_min0_def addBatch_def)

lemma ex_finalize:
  "FinalizeBatchModal_handleSubmit ex_getTime ex_toISOString ex_B1 (''2024-01-10T12:00'', ex_inputs)
     = Accepted ex_B1_final"
  by (simp add: FinalizeBatchModal_handleSubmit_def createFinalizeBatchSchema_def
        string_min1_def count_field_issues_def number_min0_def coerced_counts_def sum_issues_def
        ex_inputs_def ex_B1_def ex_B1_final_def ex_getTime_def ex_toISOString_def
        spread_counts_def totalPaidItems_def DELIVERY_FEE_def)

lemma ex_step2:
  "apply_event zod ex_getTime ex_toISOString ex_localeCompare
     (FinalizeBatch ex_B1 (''2024-01-10T12:00'', ex_inputs)) ex_store1 = ex_store2"
  by (simp add: ex_finalize ex_store1_def ex_store2_def updateBatch_def ex_B1_final_def)

lemma ex_reachable:
  "reachable zod ex_getTime ex_toISOString ex_localeCompare ex_store0"
  "reachable zod ex_getTime ex_toISOString ex_localeCompare ex_store1"
  "reachable zod ex_getTime ex_toISOString ex_localeCompare ex_store2"
proof -
  have "enabled (AddPerson ''C1'' ex_person_form) \<lparr> batches = [], deliveryPeople = [] \<rparr>" by simp
  from reachable.step [OF reachable.initial this, of zod ex_getTime ex_toISOString ex_localeCompare]
  show r0: "reachable zod ex_getTime ex_toISOString ex_localeCompare ex_store0"
    by (simp only: ex_step0)
  have "enabled (NewBatch ''B1'' ex_new_batch_form ''lote'') ex_store0" by simp
  from reachable.step [OF r0 this]
  show r1: "reachable zod ex_getTime ex_toISOString ex_localeCompare ex_store1"
    by (simp only: ex_step1)
  have "enabled (FinalizeBatch ex_B1 (''2024-01-10T12:00'', ex_inputs)) ex_store1"
    by (simp add: ex_store1_def)
  from reachable.step [OF r1 this]
  show "reachable zod ex_getTime ex_toISOString ex_localeCompare ex_store2"
    by (simp only: ex_step2)
qed

section \<open>Conservation\<close>

lemma ex_edit_unchecked:
  "EditBatchModal_handleSubmit Zod_4_0 ex_B1_final ex_bad_inputs = Accepted ex_B1_broken"
  by (simp add: EditBatchModal_handleSubmit_def createEditBatchSchema_def
        count_field_issues_def number_min0_def coerced_counts_def
        ex_bad_inputs_def ex_B1_def ex_B1_final_def ex_B1_broken_def
        spread_counts_def totalPaidItems_def DELIVERY_FEE_def)

lemma ex_step_broken:
  "apply_event Zod_4_0 ex_getTime ex_toISOString ex_localeCompare
     (EditBatch ex_B1_final ex_bad_inputs) ex_store2 = ex_store_broken"
  by (simp only: apply_event.simps ex_edit_unchecked submit.case)
     (simp add: ex_store2_def ex_store_broken_def updateBatch_def ex_B1_broken_def)

text \<open>
  Claim C1 says that every finalized batch conserves, and that a finalize or an edit
  of the counts whose six counts break one of the two equations is rejected. The
  finalize form does reject them. The edit form does not, in any release of the schema
  library. The finalized batch of the run conserves, with seven delivered, two
  returned and one absent of ten. The edit form is submitted on it with seven, two and
  none. In the releases 4.0 to 4.2 the edit is accepted, and the store that the
  application has reached holds a finalized batch whose counts add up to nine of ten.
  In the other releases the handler throws on this and on every other input.
\<close>

theorem edit_skips_conservation:
  "reachable Zod_4_0 ex_getTime ex_toISOString ex_localeCompare ex_store2 \<and>
   batches ex_store2 = [ex_B1_final] \<and> status ex_B1_final = Finalized \<and>
   conservation ex_B1_final \<and> pgfnInitial ex_B1_final = 10 \<and>
   \<not> inputs_conserve ex_B1_final ex_bad_inputs \<and>
   EditBatchModal_handleSubmit Zod_4_0 ex_B1_final ex_bad_inputs = Accepted ex_B1_broken \<and>
   apply_event Zod_4_0 ex_getTime ex_toISOString ex_localeCompare
     (EditBatch ex_B1_final ex_bad_inputs) ex_store2 = ex_store_broken \<and>
   reachable Zod_4_0 ex_getTime ex_toISOString ex_localeCompare ex_store_broken \<and>
   batches ex_store_broken = [ex_B1_broken] \<and> status ex_B1_broken = Finalized \<and>
   sum3 (pgfnDelivered ex_B1_broken) (pgfnReturned ex_B1_broken) (pgfnAbsent ex_B1_broken) = Some 9 \<and>
   pgfnInitial ex_B1_broken = 10 \<and> \<not> conservation ex_B1_broken \<and>
   EditBatchModal_handleSubmit Zod_3 ex_B1_final ex_bad_inputs = Thrown \<and>
   EditBatchModal_handleSubmit Zod_4_3 ex_B1_final ex_bad_inputs = Thrown"
proof -
  have e: "enabled (EditBatch ex_B1_final ex_bad_inputs) ex_store2"
    by (simp add: ex_store2_def)
  from reachable.step [OF ex_reachable(3) e, of Zod_4_0]
  have r: "reachable Zod_4_0 ex_getTime ex_toISOString ex_localeCompare ex_store_broken"
    by (simp only: ex_step_broken)
  have a: "batches ex_store2 = [ex_B1_final]" "status ex_B1_final = Finalized"
    "conservation ex_B1_final" "pgfnInitial ex_B1_final = 10"
    "\<not> inputs_conserve ex_B1_final ex_bad_inputs"
    by (simp_all add: ex_store2_def ex_B1_final_def ex_B1_def conservation_def sum3_def
          inputs_conserve_def ex_bad_inputs_def)
  have b: "batches ex_store_broken = [ex_B1_broken]" "status ex_B1_broken = Finalized"
    "sum3 (pgfnDelivered ex_B1_broken) (pgfnReturned ex_B1_broken) (pgfnAbsent ex_B1_broken) = Some 9"
    "pgfnInitial ex_B1_broken = 10" "\<not> conservation ex_B1_broken"
    by (simp_all add: ex_store_broken_def ex_B1_broken_def ex_B1_final_def ex_B1_def
          conservation_def sum3_def)
  have t: "EditBatchModal_handleSubmit Zod_3 ex_B1_final ex_bad_inputs = Thrown"
    "EditBatchModal_handleSubmit Zod_4_3 ex_B1_final ex_bad_inputs = Thrown"
    by (simp_all add: EditBatchModal_Thrown)
  show ?thesis
    by (intro conjI) (rule ex_reachable(3) a ex_edit_unchecked ex_step_broken r b t)+
qed

section \<open>Payable value\<close>

lemma ex_edit:
  "EditBatchModal_handleSubmit Zod_4_0 ex_B1_final ex_edit_inputs = Accepted ex_B1_edited"
  by (simp add: EditBatchModal_handleSubmit_def createEditBatchSchema_def
        count_field_issues_def number_min0_def coerced_counts_def
        ex_edit_inputs_def ex_B1_def ex_B1_final_def ex_B1_edited_def
        spread_counts_def totalPaidItems_def DELIVERY_FEE_def)

lemma accepted_same_id:
  "FinalizeBatchModal_handleSubmit getTime toISOString batch fd = Accepted u \<Longrightarrow>
     batch_id u = batch_id batch"
  "EditBatchModal_handleSubmit zod batch d = Accepted u \<Longrightarrow> batch_id u = batch_id batch"
  by (auto simp: FinalizeBatchModal_Accepted EditBatchModal_Accepted spread_counts_def)

lemma accepted_payable:
  assumes "FinalizeBatchModal_handleSubmit getTime toISOString batch fd = Accepted u
         \<or> EditBatchModal_handleSubmit zod batch d = Accepted u"
  shows "\<exists>pd pr nd nr.
           pgfnDelivered u = Some pd \<and> pgfnReturned u = Some pr \<and>
           normalDelivered u = Some nd \<and> normalReturned u = Some nr \<and>
           totalValue u = Some ((pd + pr + nd + nr) * DELIVERY_FEE)"
  using assms
  by (auto simp: FinalizeBatchModal_Accepted EditBatchModal_Accepted spread_counts_def
        totalPaidItems_def)

lemma updateBatch_same_id:
  "x \<in> set (updateBatch u bs) \<Longrightarrow> batch_id x = batch_id u \<Longrightarrow> x = u"
  by (auto simp: updateBatch_def split: if_splits)

lemma updateBatch_by_id:
  "batch_id u = batch_id batch \<Longrightarrow>
   updateBatch u bs = map (\<lambda>x. if batch_id x = batch_id batch then u else x) bs"
  by (simp add: updateBatch_def)

lemma updateBatch_stores:
  "batch \<in> set bs \<Longrightarrow> batch_id u = batch_id batch \<Longrightarrow> u \<in> set (updateBatch u bs)"
  by (force simp: updateBatch_def)

text \<open>
  Claim C2. After a successful finalize and after a successful edit of the counts, in
  every release, the batch passed to the store has \<open>totalValue\<close> equal to the delivered
  and returned counts of both kinds times \<open>DELIVERY_FEE\<close>, which is 3; the absent
  counts are not part of the product. The new store has this batch wherever the old
  store has a batch with the identifier of the form's batch, so it is stored when the
  form's batch is in the store, and every batch of the new store with that identifier
  is this batch.
\<close>

theorem totalValue_of_paid_items:
  assumes "(e = FinalizeBatch batch fd \<and>
              FinalizeBatchModal_handleSubmit getTime toISOString batch fd = Accepted u)
         \<or> (e = EditBatch batch d \<and> EditBatchModal_handleSubmit zod batch d = Accepted u)"
  shows "(\<exists>pd pr nd nr.
           pgfnDelivered u = Some pd \<and> pgfnReturned u = Some pr \<and>
           normalDelivered u = Some nd \<and> normalReturned u = Some nr \<and>
           totalValue u = Some ((pd + pr + nd + nr) * DELIVERY_FEE)) \<and>
         DELIVERY_FEE = 3 \<and>
         batches (apply_event zod getTime toISOString localeCompare e st)
           = map (\<lambda>x. if batch_id x = batch_id batch then u else x) (batches st) \<and>
         (batch \<in> set (batches st) \<longrightarrow>
            u \<in> set (batches (apply_event zod getTime toISOString localeCompare e st))) \<and>
         (\<forall>x \<in> set (batches (apply_event zod getTime toISOString localeCompare e st)).
            batch_id x = batch_id batch \<longrightarrow> x = u)"
proof -
  from assms have u: "batch_id u = batch_id batch"
    by (auto dest: accepted_same_id)
  from assms have s: "batches (apply_event zod getTime toISOString localeCompare e st)
      = updateBatch u (batches st)" by auto
  show ?thesis
  proof (intro conjI ballI impI)
    from assms show "\<exists>pd pr nd nr.
           pgfnDelivered u = Some pd \<and> pgfnReturned u = Some pr \<and>
           normalDelivered u = Some nd \<and> normalReturned u = Some nr \<and>
           totalValue u = Some ((pd + pr + nd + nr) * DELIVERY_FEE)"
      using accepted_payable [of getTime toISOString batch fd u zod d] by blast
    show "DELIVERY_FEE = 3" by (simp add: DELIVERY_FEE_def)
    from u show "batches (apply_event zod getTime toISOString localeCompare e st)
           = map (\<lambda>x. if batch_id x = batch_id batch then u else x) (batches st)"
      unfolding s by (rule updateBatch_by_id)
  next
    assume "batch \<in> set (batches st)"
    with u show "u \<in> set (batches (apply_event zod getTime toISOString localeCompare e st))"
      unfolding s by (simp add: updateBatch_stores)
  next
    fix x
    assume "x \<in> set (batches (apply_event zod getTime toISOString localeCompare e st))"
      and i: "batch_id x = batch_id batch"
    then have "x \<in> set (updateBatch u (batches st))" by (simp only: s)
    with i u show "x = u" by (simp add: updateBatch_same_id)
  qed
qed

theorem totalValue_of_paid_items_witness:
  "FinalizeBatchModal_handleSubmit ex_getTime ex_toISOString ex_B1 (''2024-01-10T12:00'', ex_inputs)
     = Accepted ex_B1_final \<and>
   totalValue ex_B1_final = Some ((7 + 2 + 0 + 0) * DELIVERY_FEE) \<and>
   totalValue ex_B1_final = Some 27 \<and>
   ex_B1 \<in> set (batches ex_store1) \<and>
   ex_B1_final \<in> set (batches (apply_event Zod_4_0 ex_getTime ex_toISOString ex_localeCompare
     (FinalizeBatch ex_B1 (''2024-01-10T12:00'', ex_inputs)) ex_store1)) \<and>
   batches (apply_event Zod_4_0 ex_getTime ex_toISOString ex_localeCompare
     (FinalizeBatch ex_B1 (''2024-01-10T12:00'', ex_inputs)) ex_store1) = [ex_B1_final] \<and>
   EditBatchModal_handleSubmit Zod_4_0 ex_B1_final ex_edit_inputs = Accepted ex_B1_edited \<and>
   totalValue ex_B1_edited = Some ((5 + 3 + 0 + 0) * DELIVERY_FEE) \<and>
   ex_B1_final \<in> set (batches ex_store2) \<and>
   ex_B1_edited \<in> set (batches (apply_event Zod_4_0 ex_getTime ex_toISOString ex_localeCompare
     (EditBatch ex_B1_final ex_edit_inputs) ex_store2)) \<and>
   batches (apply_event Zod_4_0 ex_getTime ex_toISOString ex_localeCompare
     (EditBatch ex_B1_final ex_edit_inputs) ex_store2) = [ex_B1_edited]"
proof -
  have a: "pgfnDelivered ex_B1_final = Some 7" "pgfnReturned ex_B1_final = Some 2"
    "normalDelivered ex_B1_final = Some 0" "normalReturned ex_B1_final = Some 0"
    by (simp_all add: ex_B1_final_def)
  have b: "pgfnDelivered ex_B1_edited = Some 5" "pgfnReturned ex_B1_edited = Some 3"
    "normalDelivered ex_B1_edited = Some 0" "normalReturned ex_B1_edited = Some 0"
    by (simp_all add: ex_B1_edited_def ex_B1_final_def)
  have m: "ex_B1 \<in> set (batches ex_store1)" "ex_B1_final \<in> set (batches ex_store2)"
    by (simp_all add: ex_store1_def ex_store2_def)
  have s1: "batches (apply_event Zod_4_0 ex_getTime ex_toISOString ex_localeCompare
     (FinalizeBatch ex_B1 (''2024-01-10T12:00'', ex_inputs)) ex_store1) = [ex_B1_final]"
    unfolding ex_step2 by (simp add: ex_store2_def)
  have s2: "batches (apply_event Zod_4_0 ex_getTime ex_toISOString ex_localeCompare
     (EditBatch ex_B1_final ex_edit_inputs) ex_store2) = [ex_B1_edited]"
    by (simp only: apply_event.simps ex_edit submit.case)
       (simp add: ex_store2_def updateBatch_def ex_B1_edited_def)
  note t1 = totalValue_of_paid_items [where e = "FinalizeBatch ex_B1 (''2024-01-10T12:00'', ex_inputs)"
      and batch = ex_B1 and fd = "(''2024-01-10T12:00'', ex_inputs)" and getTime = ex_getTime
      and toISOString = ex_toISOString and u = ex_B1_final and d = ex_edit_inputs
      and zod = Zod_4_0 and localeCompare = ex_localeCompare and st = ex_store1]
  note t2 = totalValue_of_paid_items [where e = "EditBatch ex_B1_final ex_edit_inputs"
      and batch = ex_B1_final and fd = "(''2024-01-10T12:00'', ex_inputs)" and getTime = ex_getTime
      and toISOString = ex_toISOString and u = ex_B1_edited and d = ex_edit_inputs
      and zod = Zod_4_0 and localeCompare = ex_localeCompare and st = ex_store2]
  from t1 ex_finalize a
  have f: "totalValue ex_B1_final = Some ((7 + 2 + 0 + 0) * DELIVERY_FEE)" "DELIVERY_FEE = 3"
    by auto
  from t1 ex_finalize m(1)
  have f': "ex_B1_final \<in> set (batches (apply_event Zod_4_0 ex_getTime ex_toISOString ex_localeCompare
     (FinalizeBatch ex_B1 (''2024-01-10T12:00'', ex_inputs)) ex_store1))"
    by blast
  from t2 ex_edit b
  have g: "totalValue ex_B1_edited = Some ((5 + 3 + 0 + 0) * DELIVERY_FEE)"
    by auto
  from t2 ex_edit m(2)
  have g': "ex_B1_edited \<in> set (batches (apply_event Zod_4_0 ex_getTime ex_toISOString ex_localeCompare
     (EditBatch ex_B1_final ex_edit_inputs) ex_store2))"
    by blast
  from f have f27: "totalValue ex_B1_final = Some 27" by simp
  show ?thesis
    by (intro conjI) (rule ex_finalize f(1) f27 m f' s1 ex_edit g g' s2)+
qed

section \<open>Creation\<close>

text \<open>
  Claim C3. A new batch is accepted only if both initial counts are numbers that are
  not negative and one of them is positive, and the store changes only if the form is
  accepted. With both counts zero the form is rejected, with an error on
  \<^verbatim>\<open>pgfnInitial\<close>, and the store stays as it was.
\<close>

theorem new_batch_needs_an_item:
  "(NewBatchModal_handleSubmit d descr = Accepted b \<longrightarrow>
      (\<exists>p n. f_pgfnInitial d = Some p \<and> f_normalInitial d = Some n \<and>
             0 \<le> p \<and> 0 \<le> n \<and> (0 < p \<or> 0 < n))) \<and>
   (batches (apply_event zod getTime toISOString localeCompare (NewBatch nowStr d descr) st) \<noteq> batches st \<longrightarrow>
      (\<exists>b. NewBatchModal_handleSubmit d descr = Accepted b)) \<and>
   (f_pgfnInitial d = Some 0 \<and> f_normalInitial d = Some 0 \<longrightarrow>
      (\<exists>ks. NewBatchModal_handleSubmit d descr = Rejected ks \<and> ''pgfnInitial'' \<in> set ks) \<and>
      apply_event zod getTime toISOString localeCompare (NewBatch nowStr d descr) st = st)"
proof (intro conjI impI)
  assume "NewBatchModal_handleSubmit d descr = Accepted b"
  then show "\<exists>p n. f_pgfnInitial d = Some p \<and> f_normalInitial d = Some n \<and>
             0 \<le> p \<and> 0 \<le> n \<and> (0 < p \<or> 0 < n)"
    by (blast dest: NewBatchModal_Accepted)
next
  assume "batches (apply_event zod getTime toISOString localeCompare (NewBatch nowStr d descr) st) \<noteq> batches st"
  then show "\<exists>b. NewBatchModal_handleSubmit d descr = Accepted b"
    by (cases "NewBatchModal_handleSubmit d descr") auto
next
  assume z: "f_pgfnInitial d = Some 0 \<and> f_normalInitial d = Some 0"
  then have r: "NewBatchModal_handleSubmit d descr =
      Rejected (getZodFieldErrors
        (string_min1 ''deliveryPersonId'' (f_deliveryPersonId d)
          @ string_min1 ''departureDatetime'' (f_departureDatetime d)
          @ string_min1 ''estimatedReturnDate'' (f_estimatedReturnDate d) @ [''pgfnInitial'']))"
    by (simp add: NewBatchModal_handleSubmit_def newBatchSchema_def number_min0_def)
  then show "\<exists>ks. NewBatchModal_handleSubmit d descr = Rejected ks \<and> ''pgfnInitial'' \<in> set ks"
    by (simp add: getZodFieldErrors_def)
  from r show "apply_event zod getTime toISOString localeCompare (NewBatch nowStr d descr) st = st"
    by (simp only: rejected_event_keeps_store)
qed

theorem new_batch_needs_an_item_witness:
  "NewBatchModal_handleSubmit ex_new_batch_form ''lote'' = Accepted (ex_B1 \<lparr> batch_id := [] \<rparr>) \<and>
   (\<exists>p n. f_pgfnInitial ex_new_batch_form = Some p \<and> f_normalInitial ex_new_batch_form = Some n \<and>
          0 \<le> p \<and> 0 \<le> n \<and> (0 < p \<or> 0 < n)) \<and>
   batches (apply_event Zod_4_0 ex_getTime ex_toISOString ex_localeCompare
      (NewBatch ''B1'' ex_new_batch_form ''lote'') ex_store0) \<noteq> batches ex_store0 \<and>
   f_pgfnInitial ex_zero_form = Some 0 \<and> f_normalInitial ex_zero_form = Some 0 \<and>
   (\<exists>ks. NewBatchModal_handleSubmit ex_zero_form ''lote'' = Rejected ks \<and> ''pgfnInitial'' \<in> set ks) \<and>
   apply_event Zod_4_0 ex_getTime ex_toISOString ex_localeCompare
      (NewBatch ''B2'' ex_zero_form ''lote'') ex_store1 = ex_store1"
proof -
  have a: "NewBatchModal_handleSubmit ex_new_batch_form ''lote'' = Accepted (ex_B1 \<lparr> batch_id := [] \<rparr>)"
    by (simp add: ex_new_batch_form_def ex_B1_def
        NewBatchModal_handleSubmit_def newBatchSchema_def string_min1_def number_min0_def)
  have c: "batches (apply_event Zod_4_0 ex_getTime ex_toISOString ex_localeCompare
      (NewBatch ''B1'' ex_new_batch_form ''lote'') ex_store0) \<noteq> batches ex_store0"
    unfolding ex_step1 by (simp add: ex_store1_def ex_store0_def)
  have z: "f_pgfnInitial ex_zero_form = Some 0 \<and> f_normalInitial ex_zero_form = Some 0"
    by (simp add: ex_zero_form_def)
  from new_batch_needs_an_item [where d = ex_new_batch_form and descr = "''lote''"
      and b = "ex_B1 \<lparr> batch_id := [] \<rparr>" and zod = Zod_4_0 and getTime = ex_getTime
      and toISOString = ex_toISOString and localeCompare = ex_localeCompare
      and nowStr = "''B1''" and st = ex_store0] a
  have p: "\<exists>p n. f_pgfnInitial ex_new_batch_form = Some p \<and> f_normalInitial ex_new_batch_form = Some n \<and>
          0 \<le> p \<and> 0 \<le> n \<and> (0 < p \<or> 0 < n)"
    by blast
  from new_batch_needs_an_item [where d = ex_zero_form and descr = "''lote''"
      and b = ex_B1 and zod = Zod_4_0 and getTime = ex_getTime
      and toISOString = ex_toISOString and localeCompare = ex_localeCompare
      and nowStr = "''B2''" and st = ex_store1] z
  have q: "(\<exists>ks. NewBatchModal_handleSubmit ex_zero_form ''lote'' = Rejected ks \<and> ''pgfnInitial'' \<in> set ks) \<and>
     apply_event Zod_4_0 ex_getTime ex_toISOString ex_localeCompare
      (NewBatch ''B2'' ex_zero_form ''lote'') ex_store1 = ex_store1"
    by blast
  from a c z p q show ?thesis by blast
qed

section \<open>Frame of a finalize\<close>

lemma ex_step_dup:
  "apply_event zod ex_getTime ex_toISOString ex_localeCompare (NewBatch ''B1'' ex_other_form ''lote'')
     ex_store1 = ex_store_dup"
  by (simp add: ex_store1_def ex_store_dup_def ex_other_form_def ex_new_batch_form_def ex_Q_def
        ex_B2_def ex_B1_def NewBatchModal_handleSubmit_def newBatchSchema_def string_min1_def
        number_min0_def addBatch_def)

lemma ex_reachable_dup: "reachable zod ex_getTime ex_toISOString ex_localeCompare ex_store_dup"
proof -
  have "enabled (NewBatch ''B1'' ex_other_form ''lote'') ex_store1" by simp
  from reachable.step [OF ex_reachable(2) this] show ?thesis by (simp only: ex_step_dup)
qed

text \<open>
  Claim C10, as stated, says that a finalize leaves every other batch of the store
  unchanged. The identifier of a batch is the clock reading at its creation, and the
  store replaces by identifier. The store below is reached by creating, at one clock
  reading, a batch for the first courier and a batch for the second. The finalize of
  the first batch replaces both, and the batch of the second courier is gone.
\<close>

theorem finalize_overwrites_same_id_counterexample:
  "reachable Zod_4_0 ex_getTime ex_toISOString ex_localeCompare ex_store_dup \<and>
   batches ex_store_dup = [ex_Q, ex_B1] \<and> ex_Q \<noteq> ex_B1 \<and>
   deliveryPersonId ex_Q = ''C2'' \<and> deliveryPersonId ex_B1 = ''C1'' \<and>
   FinalizeBatchModal_handleSubmit ex_getTime ex_toISOString ex_B1 (''2024-01-10T12:00'', ex_inputs)
     = Accepted ex_B1_final \<and>
   batches (apply_event Zod_4_0 ex_getTime ex_toISOString ex_localeCompare
      (FinalizeBatch ex_B1 (''2024-01-10T12:00'', ex_inputs)) ex_store_dup)
     = [ex_B1_final, ex_B1_final] \<and>
   ex_Q \<noteq> ex_B1_final"
proof -
  have a: "batches ex_store_dup = [ex_Q, ex_B1]" "deliveryPersonId ex_Q = ''C2''"
    "deliveryPersonId ex_B1 = ''C1''" "deliveryPersonId ex_B1_final = ''C1''"
    by (simp_all add: ex_store_dup_def ex_Q_def ex_B2_def ex_B1_def ex_B1_final_def)
  from a(2,3) have n1: "ex_Q \<noteq> ex_B1" by auto
  from a(2,4) have n2: "ex_Q \<noteq> ex_B1_final" by auto
  have i: "batch_id ex_Q = batch_id ex_B1_final" "batch_id ex_B1 = batch_id ex_B1_final"
    by (simp_all add: ex_Q_def ex_B1_final_def ex_B1_def)
  have s: "batches (apply_event Zod_4_0 ex_getTime ex_toISOString ex_localeCompare
      (FinalizeBatch ex_B1 (''2024-01-10T12:00'', ex_inputs)) ex_store_dup)
     = [ex_B1_final, ex_B1_final]"
    by (simp only: apply_event.simps ex_finalize submit.case)
       (simp add: ex_store_dup_def updateBatch_def i)
  show ?thesis
    by (intro conjI) (rule ex_reachable_dup a(1-3) n1 ex_finalize s n2)+
qed

text \<open>
  Claim C10, amended. A successful finalize keeps the identifier, the courier, the two
  initial counts, the departure, the estimated return and the description of the
  batch. The new store has the finalized batch wherever the old store has a batch with
  its identifier, and every batch with another identifier stays as it was, at its
  place; the couriers stay as they were.
\<close>

theorem finalize_frame:
  assumes "FinalizeBatchModal_handleSubmit getTime toISOString batch d = Accepted u"
  shows "batch_id u = batch_id batch \<and> deliveryPersonId u = deliveryPersonId batch \<and>
         pgfnInitial u = pgfnInitial batch \<and> normalInitial u = normalInitial batch \<and>
         departureDatetime u = departureDatetime batch \<and>
         estimatedReturnDate u = estimatedReturnDate batch \<and>
         description u = description batch \<and>
         batches (apply_event zod getTime toISOString localeCompare (FinalizeBatch batch d) st)
           = map (\<lambda>x. if batch_id x = batch_id batch then u else x) (batches st) \<and>
         length (batches (apply_event zod getTime toISOString localeCompare (FinalizeBatch batch d) st))
           = length (batches st) \<and>
         (\<forall>i < length (batches st). batch_id (batches st ! i) \<noteq> batch_id batch \<longrightarrow>
            batches (apply_event zod getTime toISOString localeCompare (FinalizeBatch batch d) st) ! i
              = batches st ! i) \<and>
         deliveryPeople (apply_event zod getTime toISOString localeCompare (FinalizeBatch batch d) st)
           = deliveryPeople st"
proof -
  from assms have f: "batch_id u = batch_id batch \<and> deliveryPersonId u = deliveryPersonId batch \<and>
         pgfnInitial u = pgfnInitial batch \<and> normalInitial u = normalInitial batch \<and>
         departureDatetime u = departureDatetime batch \<and>
         estimatedReturnDate u = estimatedReturnDate batch \<and>
         description u = description batch"
    by (auto simp: FinalizeBatchModal_Accepted spread_counts_def)
  then have m: "updateBatch u (batches st)
      = map (\<lambda>x. if batch_id x = batch_id batch then u else x) (batches st)"
    by (simp add: updateBatch_by_id)
  from assms have s: "batches (apply_event zod getTime toISOString localeCompare (FinalizeBatch batch d) st)
      = updateBatch u (batches st)" by simp
  from assms have p: "deliveryPeople (apply_event zod getTime toISOString localeCompare (FinalizeBatch batch d) st)
           = deliveryPeople st" by simp
  from f s m p show ?thesis by simp
qed

lemma ex_step5:
  "batches (apply_event Zod_4_0 ex_getTime ex_toISOString ex_localeCompare
      (FinalizeBatch ex_B1 (''2024-01-10T12:00'', ex_inputs)) ex_store5) = [ex_B2, ex_B1_final]"
  by (simp only: apply_event.simps ex_finalize submit.case)
     (simp add: ex_store5_def updateBatch_def ex_B2_def ex_B1_def ex_B1_final_def)

theorem finalize_frame_witness:
  "FinalizeBatchModal_handleSubmit ex_getTime ex_toISOString ex_B1 (''2024-01-10T12:00'', ex_inputs)
     = Accepted ex_B1_final \<and>
   batch_id ex_B1_final = batch_id ex_B1 \<and> deliveryPersonId ex_B1_final = deliveryPersonId ex_B1 \<and>
   pgfnInitial ex_B1_final = pgfnInitial ex_B1 \<and> normalInitial ex_B1_final = normalInitial ex_B1 \<and>
   departureDatetime ex_B1_final = departureDatetime ex_B1 \<and>
   estimatedReturnDate ex_B1_final = estimatedReturnDate ex_B1 \<and>
   description ex_B1_final = description ex_B1 \<and>
   batches ex_store5 = [ex_B2, ex_B1] \<and>
   (0::nat) < length (batches ex_store5) \<and>
   batch_id (batches ex_store5 ! 0) \<noteq> batch_id ex_B1 \<and>
   batches (apply_event Zod_4_0 ex_getTime ex_toISOString ex_localeCompare
      (FinalizeBatch ex_B1 (''2024-01-10T12:00'', ex_inputs)) ex_store5) ! 0 = batches ex_store5 ! 0 \<and>
   batches (apply_event Zod_4_0 ex_getTime ex_toISOString ex_localeCompare
      (FinalizeBatch ex_B1 (''2024-01-10T12:00'', ex_inputs)) ex_store5) = [ex_B2, ex_B1_final]"
proof -
  note t = finalize_frame [OF ex_finalize, where zod = Zod_4_0 and localeCompare = ex_localeCompare
      and st = ex_store5]
  have a: "batches ex_store5 = [ex_B2, ex_B1]" "(0::nat) < length (batches ex_store5)"
    "batch_id (batches ex_store5 ! 0) \<noteq> batch_id ex_B1"
    by (simp_all add: ex_store5_def ex_B2_def ex_B1_def)
  from t have f: "batch_id ex_B1_final = batch_id ex_B1" "deliveryPersonId ex_B1_final = deliveryPersonId ex_B1"
    "pgfnInitial ex_B1_final = pgfnInitial ex_B1" "normalInitial ex_B1_final = normalInitial ex_B1"
    "departureDatetime ex_B1_final = departureDatetime ex_B1"
    "estimatedReturnDate ex_B1_final = estimatedReturnDate ex_B1"
    "description ex_B1_final = description ex_B1"
    by blast+
  from t a(2,3) have n: "batches (apply_event Zod_4_0 ex_getTime ex_toISOString ex_localeCompare
      (FinalizeBatch ex_B1 (''2024-01-10T12:00'', ex_inputs)) ex_store5) ! 0 = batches ex_store5 ! 0"
    by blast
  show ?thesis
    by (intro conjI) (rule ex_finalize f a n ex_step5)+
qed

section \<open>Identifiers that are not in the store\<close>

lemma updateBatch_absent:
  "batch_id u \<notin> batch_id ` set bs \<Longrightarrow> updateBatch u bs = bs"
  unfolding updateBatch_def by (induction bs) auto

lemma deleteBatch_absent:
  "i \<notin> batch_id ` set bs \<Longrightarrow> deleteBatch i bs = bs"
  unfolding deleteBatch_def by (induction bs) auto

text \<open>
  Claim C8, as stated, says that \<^verbatim>\<open>updateBatch\<close> and \<^verbatim>\<open>deleteBatch\<close> fail with
  \<^verbatim>\<open>NotFound\<close> on an identifier that is not in the store. On the store of the run that
  has no batch, both calls return normally and leave the store as it was.
\<close>

theorem missing_id_returns_normally_counterexample:
  "batch_id ex_B1 \<notin> batch_id ` set (batches ex_store0) \<and>
   call_updateBatch ex_B1 ex_store0 = (Returned, ex_store0) \<and>
   call_deleteBatch (batch_id ex_B1) ex_store0 = (Returned, ex_store0) \<and>
   Returned \<noteq> Failed ''NotFound''"
  by (simp add: call_updateBatch_def call_deleteBatch_def updateBatch_def deleteBatch_def
        ex_store0_def)

text \<open>
  Claim C8, amended. For an identifier that is not in the store, \<^verbatim>\<open>updateBatch\<close> and
  \<^verbatim>\<open>deleteBatch\<close> return normally and leave the store unchanged: they are no-ops
  and report no failure.
\<close>

theorem missing_id_is_a_no_op:
  assumes "batch_id u \<notin> batch_id ` set (batches st)"
  shows "call_updateBatch u st = (Returned, st) \<and>
         call_deleteBatch (batch_id u) st = (Returned, st)"
  using assms
  by (simp add: call_updateBatch_def call_deleteBatch_def updateBatch_absent deleteBatch_absent)

theorem missing_id_is_a_no_op_witness:
  "batch_id (ex_B1 \<lparr> batch_id := ''B9'' \<rparr>) \<notin> batch_id ` set (batches ex_store2) \<and>
   call_updateBatch (ex_B1 \<lparr> batch_id := ''B9'' \<rparr>) ex_store2 = (Returned, ex_store2) \<and>
   call_deleteBatch ''B9'' ex_store2 = (Returned, ex_store2)"
proof -
  have a: "batch_id (ex_B1 \<lparr> batch_id := ''B9'' \<rparr>) \<notin> batch_id ` set (batches ex_store2)"
    by (simp add: ex_store2_def ex_B1_final_def ex_B1_def)
  from missing_id_is_a_no_op [OF a] a show ?thesis by simp
qed

section \<open>Cascading delete\<close>

text \<open>
  Claim C4. Deleting the courier \<open>P\<close> is one step on the store: it removes \<open>P\<close> from
  the couriers and removes exactly the batches whose \<^verbatim>\<open>deliveryPersonId\<close> is \<open>P\<close>. The
  batches of other couriers stay, unchanged and in their order.
\<close>

theorem delete_person_cascades:
  "person_id ` set (deliveryPeople (deleteDeliveryPerson P st)) = person_id ` set (deliveryPeople st) - {P} \<and>
   deliveryPeople (deleteDeliveryPerson P st) = filter (\<lambda>p. person_id p \<noteq> P) (deliveryPeople st) \<and>
   batches (deleteDeliveryPerson P st) = filter (\<lambda>b. deliveryPersonId b \<noteq> P) (batches st) \<and>
   (\<forall>b \<in> set (batches st). deliveryPersonId b = P \<longrightarrow> b \<notin> set (batches (deleteDeliveryPerson P st))) \<and>
   (\<forall>b \<in> set (batches st). deliveryPersonId b \<noteq> P \<longrightarrow> b \<in> set (batches (deleteDeliveryPerson P st))) \<and>
   set (batches (deleteDeliveryPerson P st)) \<subseteq> set (batches st) \<and>
   apply_event zod getTime toISOString localeCompare (DeletePerson P) st = deleteDeliveryPerson P st"
  by (auto simp: deleteDeliveryPerson_def)

theorem delete_person_cascades_witness:
  "person_id ` set (deliveryPeople ex_store3) = {''C1'', ''C2''} \<and>
   person_id ` set (deliveryPeople (deleteDeliveryPerson ''C1'' ex_store3)) = {''C2''} \<and>
   batches (deleteDeliveryPerson ''C1'' ex_store3) = [ex_B2] \<and>
   ex_B1_final \<in> set (batches ex_store3) \<and> deliveryPersonId ex_B1_final = ''C1'' \<and>
   ex_B1_final \<notin> set (batches (deleteDeliveryPerson ''C1'' ex_store3)) \<and>
   ex_B2 \<in> set (batches ex_store3) \<and> deliveryPersonId ex_B2 \<noteq> ''C1'' \<and>
   ex_B2 \<in> set (batches (deleteDeliveryPerson ''C1'' ex_store3))"
proof -
  note d = delete_person_cascades [where P = "''C1''" and st = ex_store3 and zod = Zod_4_0
      and getTime = ex_getTime and toISOString = ex_toISOString and localeCompare = ex_localeCompare]
  have a: "ex_B1_final \<in> set (batches ex_store3)" "deliveryPersonId ex_B1_final = ''C1''"
    "ex_B2 \<in> set (batches ex_store3)" "deliveryPersonId ex_B2 \<noteq> ''C1''"
    by (simp_all add: ex_store3_def ex_B1_final_def ex_B1_def ex_B2_def)
  have p: "person_id ` set (deliveryPeople ex_store3) = {''C1'', ''C2''}"
    by (simp add: ex_store3_def ex_person_def ex_person2_def)
  have f: "filter (\<lambda>b. deliveryPersonId b \<noteq> ''C1'') (batches ex_store3) = [ex_B2]"
    by (simp add: ex_store3_def ex_B1_final_def ex_B1_def ex_B2_def)
  have q: "{''C1'', ''C2''} - {''C1''} = {''C2''}" by simp
  from d [THEN conjunct1] have c1:
    "person_id ` set (deliveryPeople (deleteDeliveryPerson ''C1'' ex_store3)) = {''C2''}"
    by (simp only: p q)
  from d [THEN conjunct2, THEN conjunct2, THEN conjunct1] have c2:
    "batches (deleteDeliveryPerson ''C1'' ex_store3) = [ex_B2]"
    by (simp only: f)
  from d [THEN conjunct2, THEN conjunct2, THEN conjunct2, THEN conjunct1] a(1,2) have c3:
    "ex_B1_final \<notin> set (batches (deleteDeliveryPerson ''C1'' ex_store3))"
    by blast
  from d [THEN conjunct2, THEN conjunct2, THEN conjunct2, THEN conjunct2, THEN conjunct1] a(3,4) have c4:
    "ex_B2 \<in> set (batches (deleteDeliveryPerson ''C1'' ex_store3))"
    by blast
  show ?thesis
    by (intro conjI) (rule p c1 c2 a c3 c4)+
qed

section \<open>Status transitions\<close>

lemma ex_refinalize:
  "FinalizeBatchModal_handleSubmit ex_getTime ex_toISOString ex_B1_final
      (''2024-01-10T12:00'', ex_edit_inputs) = Accepted ex_B1_edited"
  by (simp add: FinalizeBatchModal_handleSubmit_def createFinalizeBatchSchema_def
        string_min1_def count_field_issues_def number_min0_def coerced_counts_def sum_issues_def
        ex_edit_inputs_def ex_B1_def ex_B1_final_def ex_B1_edited_def ex_getTime_def
        ex_toISOString_def spread_counts_def totalPaidItems_def DELIVERY_FEE_def)

lemma ex_step_mixed:
  "apply_event zod ex_getTime ex_toISOString ex_localeCompare (NewBatch ''B1'' ex_new_batch_form ''lote'')
     ex_store2 = ex_store_mixed"
  by (simp add: ex_store2_def ex_store_mixed_def ex_new_batch_form_def ex_B1_def
        NewBatchModal_handleSubmit_def newBatchSchema_def string_min1_def number_min0_def addBatch_def)

lemma ex_reachable_mixed: "reachable zod ex_getTime ex_toISOString ex_localeCompare ex_store_mixed"
proof -
  have "enabled (NewBatch ''B1'' ex_new_batch_form ''lote'') ex_store2" by simp
  from reachable.step [OF ex_reachable(3) this] show ?thesis by (simp only: ex_step_mixed)
qed

lemma ex_edit_pending:
  "EditBatchModal_handleSubmit Zod_4_0 ex_B1 ex_inputs = Accepted ex_B1_counted"
  by (simp add: EditBatchModal_handleSubmit_def createEditBatchSchema_def
        count_field_issues_def number_min0_def coerced_counts_def
        ex_inputs_def ex_B1_def ex_B1_counted_def
        spread_counts_def totalPaidItems_def DELIVERY_FEE_def)

text \<open>
  Claim C9, as stated, says that finalizing a batch that is already finalized fails
  and leaves its fields unchanged, and that no batch goes back from finalized to
  pending. The finalize handler does not look at the status: on the finalized batch of
  the run, with other counts that add up, it is accepted and the store changes. And
  the store replaces by identifier, which is a clock reading: when the first batch is
  created once more at the clock reading of the finalized one, the store holds a
  pending and a finalized batch with one identifier, and in the releases 4.0 to 4.2 an
  edit of the pending batch replaces both, so the finalized batch is pending again.
  In every release, when two batches are created at one clock reading, the finalize
  of one replaces both, and the other is finalized without a finalize of its own.
\<close>

theorem refinalize_counterexample:
  "status ex_B1_final = Finalized \<and>
   FinalizeBatchModal_handleSubmit ex_getTime ex_toISOString ex_B1_final
      (''2024-01-10T12:00'', ex_edit_inputs) = Accepted ex_B1_edited \<and>
   pgfnDelivered ex_B1_edited \<noteq> pgfnDelivered ex_B1_final \<and>
   apply_event Zod_4_0 ex_getTime ex_toISOString ex_localeCompare
      (FinalizeBatch ex_B1_final (''2024-01-10T12:00'', ex_edit_inputs)) ex_store2 \<noteq> ex_store2 \<and>
   reachable Zod_4_0 ex_getTime ex_toISOString ex_localeCompare ex_store_mixed \<and>
   batches ex_store_mixed = [ex_B1, ex_B1_final] \<and>
   batch_id ex_B1 = batch_id ex_B1_final \<and>
   batches (apply_event Zod_4_0 ex_getTime ex_toISOString ex_localeCompare
      (EditBatch ex_B1 ex_inputs) ex_store_mixed) = [ex_B1_counted, ex_B1_counted] \<and>
   status ex_B1_counted = Pending \<and>
   reachable Zod_4_0 ex_getTime ex_toISOString ex_localeCompare ex_store_dup \<and>
   batches ex_store_dup = [ex_Q, ex_B1] \<and> status ex_Q = Pending \<and>
   batch_id ex_Q = batch_id ex_B1 \<and> ex_Q \<noteq> ex_B1 \<and>
   batches (apply_event Zod_4_0 ex_getTime ex_toISOString ex_localeCompare
      (FinalizeBatch ex_B1 (''2024-01-10T12:00'', ex_inputs)) ex_store_dup)
     = [ex_B1_final, ex_B1_final]"
proof -
  have q: "batches ex_store_dup = [ex_Q, ex_B1]" "status ex_Q = Pending"
    "batch_id ex_Q = batch_id ex_B1" "deliveryPersonId ex_Q = ''C2''" "deliveryPersonId ex_B1 = ''C1''"
    by (simp_all add: ex_store_dup_def ex_Q_def ex_B2_def ex_B1_def)
  from q(4,5) have qn: "ex_Q \<noteq> ex_B1" by auto
  have qi: "batch_id ex_Q = batch_id ex_B1_final" "batch_id ex_B1 = batch_id ex_B1_final"
    by (simp_all add: ex_Q_def ex_B1_final_def ex_B1_def)
  have qs: "batches (apply_event Zod_4_0 ex_getTime ex_toISOString ex_localeCompare
      (FinalizeBatch ex_B1 (''2024-01-10T12:00'', ex_inputs)) ex_store_dup)
     = [ex_B1_final, ex_B1_final]"
    by (simp only: apply_event.simps ex_finalize submit.case)
       (simp add: ex_store_dup_def updateBatch_def qi)
  have ex_same_id: "batch_id ex_B1_final = batch_id ex_B1_edited"
    by (simp add: ex_B1_edited_def)
  have d: "pgfnDelivered ex_B1_edited \<noteq> pgfnDelivered ex_B1_final"
    by (simp add: ex_B1_edited_def ex_B1_final_def)
  then have "ex_B1_final \<noteq> ex_B1_edited" by (rule contrapos_nn) simp
  then have c: "apply_event Zod_4_0 ex_getTime ex_toISOString ex_localeCompare
      (FinalizeBatch ex_B1_final (''2024-01-10T12:00'', ex_edit_inputs)) ex_store2 \<noteq> ex_store2"
    by (simp add: ex_refinalize ex_store2_def updateBatch_def ex_same_id)
  have s: "status ex_B1_final = Finalized" "batches ex_store_mixed = [ex_B1, ex_B1_final]"
    "batch_id ex_B1 = batch_id ex_B1_final" "status ex_B1_counted = Pending"
    by (simp_all add: ex_B1_final_def ex_store_mixed_def ex_B1_counted_def ex_B1_def)
  have i: "batch_id ex_B1 = batch_id ex_B1_counted" "batch_id ex_B1_final = batch_id ex_B1_counted"
    by (simp_all add: ex_B1_final_def ex_B1_counted_def)
  have m: "batches (apply_event Zod_4_0 ex_getTime ex_toISOString ex_localeCompare
      (EditBatch ex_B1 ex_inputs) ex_store_mixed) = [ex_B1_counted, ex_B1_counted]"
    by (simp only: apply_event.simps ex_edit_pending submit.case)
       (simp add: ex_store_mixed_def updateBatch_def i)
  show ?thesis
    by (intro conjI) (rule s ex_refinalize d c ex_reachable_mixed m ex_reachable_dup q(1-3) qn qs)+
qed

lemma updateBatch_ids: "map batch_id (updateBatch u bs) = map batch_id bs"
  by (simp add: updateBatch_def)

lemma apply_event_distinct:
  assumes "distinct (map batch_id (batches st))" "fresh_id e st"
  shows "distinct (map batch_id (batches (apply_event zod getTime toISOString localeCompare e st)))"
proof (cases e)
  case (NewBatch nowStr d descr)
  with assms show ?thesis
    by (auto simp: addBatch_def split: submit.splits)
qed (use assms in \<open>auto simp: updateBatch_ids deleteDeliveryPerson_def deleteBatch_def distinct_map_filter
        split: submit.splits\<close>)

lemma distinct_ids_same:
  "distinct (map batch_id bs) \<Longrightarrow> x \<in> set bs \<Longrightarrow> y \<in> set bs \<Longrightarrow>
     batch_id x = batch_id y \<longleftrightarrow> x = y"
  by (auto simp: distinct_map dest: inj_onD)

text \<open>
  Claim C9, amended. In a store with distinct identifiers, one event of the
  application, in every release and with a fresh identifier when it creates a batch,
  keeps a finalized batch finalized, and turns a pending batch into a finalized one
  only when it is the finalize of that batch; the identifiers stay distinct, so this
  holds along a run, and the batch is finalized at most once.
\<close>

theorem status_moves_forward:
  assumes "distinct (map batch_id (batches st))" and "enabled e st" and "fresh_id e st"
    and "x \<in> set (batches st)"
    and "y \<in> set (batches (apply_event zod getTime toISOString localeCompare e st))"
    and "batch_id x = batch_id y"
  shows "(status x = Finalized \<longrightarrow> status y = Finalized) \<and>
         (status x = Pending \<and> status y = Finalized \<longrightarrow> (\<exists>d. e = FinalizeBatch x d)) \<and>
         distinct (map batch_id (batches (apply_event zod getTime toISOString localeCompare e st)))"
proof -
  have s: "(status x = Finalized \<longrightarrow> status y = Finalized) \<and>
         (status x = Pending \<and> status y = Finalized \<longrightarrow> (\<exists>d. e = FinalizeBatch x d))"
    using apply_event_batches_cases [OF assms(5)]
  proof (elim disjE exE conjE)
    assume "y \<in> set (batches st)"
    with assms(1,4,6) have "x = y" by (simp add: distinct_ids_same)
    then show ?thesis by auto
  next
    fix nowStr d descr b
    assume "e = NewBatch nowStr d descr" "y = b \<lparr> batch_id := nowStr \<rparr>"
    with assms(3,4,6) show ?thesis by force
  next
    fix batch d
    assume e: "e = FinalizeBatch batch d"
      and a: "FinalizeBatchModal_handleSubmit getTime toISOString batch d = Accepted y"
    from a have "batch_id y = batch_id batch" by (rule accepted_same_id)
    with e assms(1,2,4,6) have "x = batch" by (simp add: distinct_ids_same)
    moreover from a have "status y = Finalized"
      by (auto simp: FinalizeBatchModal_Accepted spread_counts_def)
    ultimately show ?thesis using e by simp
  next
    fix batch d
    assume e: "e = EditBatch batch d"
      and a: "EditBatchModal_handleSubmit zod batch d = Accepted y"
    from a have "batch_id y = batch_id batch" by (rule accepted_same_id)
    with e assms(1,2,4,6) have "x = batch" by (simp add: distinct_ids_same)
    moreover from a have "status y = status batch"
      by (auto simp: EditBatchModal_Accepted spread_counts_def)
    ultimately show ?thesis by auto
  qed
  from s apply_event_distinct [OF assms(1,3)] show ?thesis by blast
qed

theorem status_moves_forward_witness:
  "distinct (map batch_id (batches ex_store1)) \<and>
   enabled (FinalizeBatch ex_B1 (''2024-01-10T12:00'', ex_inputs)) ex_store1 \<and>
   fresh_id (FinalizeBatch ex_B1 (''2024-01-10T12:00'', ex_inputs)) ex_store1 \<and>
   ex_B1 \<in> set (batches ex_store1) \<and>
   ex_B1_final \<in> set (batches (apply_event Zod_4_0 ex_getTime ex_toISOString ex_localeCompare
      (FinalizeBatch ex_B1 (''2024-01-10T12:00'', ex_inputs)) ex_store1)) \<and>
   batch_id ex_B1 = batch_id ex_B1_final \<and>
   status ex_B1 = Pending \<and> status ex_B1_final = Finalized \<and>
   distinct (map batch_id (batches (apply_event Zod_4_0 ex_getTime ex_toISOString ex_localeCompare
      (FinalizeBatch ex_B1 (''2024-01-10T12:00'', ex_inputs)) ex_store1))) \<and>
   distinct (map batch_id (batches ex_store2)) \<and>
   enabled (EditBatch ex_B1_final ex_edit_inputs) ex_store2 \<and>
   fresh_id (EditBatch ex_B1_final ex_edit_inputs) ex_store2 \<and>
   ex_B1_final \<in> set (batches ex_store2) \<and>
   ex_B1_edited \<in> set (batches (apply_event Zod_4_0 ex_getTime ex_toISOString ex_localeCompare
      (EditBatch ex_B1_final ex_edit_inputs) ex_store2)) \<and>
   batch_id ex_B1_final = batch_id ex_B1_edited \<and>
   status ex_B1_edited = Finalized"
proof -
  have h: "distinct (map batch_id (batches ex_store1))"
    "enabled (FinalizeBatch ex_B1 (''2024-01-10T12:00'', ex_inputs)) ex_store1"
    "fresh_id (FinalizeBatch ex_B1 (''2024-01-10T12:00'', ex_inputs)) ex_store1"
    "ex_B1 \<in> set (batches ex_store1)"
    by (simp_all add: ex_store1_def)
  have y: "ex_B1_final \<in> set (batches (apply_event Zod_4_0 ex_getTime ex_toISOString ex_localeCompare
      (FinalizeBatch ex_B1 (''2024-01-10T12:00'', ex_inputs)) ex_store1))"
    unfolding ex_step2 by (simp add: ex_store2_def)
  have i: "batch_id ex_B1 = batch_id ex_B1_final" "status ex_B1 = Pending"
    "status ex_B1_final = Finalized"
    by (simp_all add: ex_B1_final_def ex_B1_def)
  note t1 = status_moves_forward [OF h y i(1)]
  from t1 have d1: "distinct (map batch_id (batches (apply_event Zod_4_0 ex_getTime ex_toISOString
      ex_localeCompare (FinalizeBatch ex_B1 (''2024-01-10T12:00'', ex_inputs)) ex_store1)))"
    by blast
  have h2: "distinct (map batch_id (batches ex_store2))"
    "enabled (EditBatch ex_B1_final ex_edit_inputs) ex_store2"
    "fresh_id (EditBatch ex_B1_final ex_edit_inputs) ex_store2"
    "ex_B1_final \<in> set (batches ex_store2)"
    by (simp_all add: ex_store2_def)
  have j: "batch_id ex_B1_final = batch_id ex_B1_edited"
    by (simp add: ex_B1_edited_def)
  have y2: "ex_B1_edited \<in> set (batches (apply_event Zod_4_0 ex_getTime ex_toISOString ex_localeCompare
      (EditBatch ex_B1_final ex_edit_inputs) ex_store2))"
    by (simp only: apply_event.simps ex_edit submit.case)
       (simp add: ex_store2_def updateBatch_def j)
  from status_moves_forward [OF h2 y2 j] i(3) have s2: "status ex_B1_edited = Finalized"
    by blast
  show ?thesis
    by (intro conjI) (rule h y i d1 h2 y2 j s2)+
qed

section \<open>Active and archived batches\<close>

lemma set_insort_cmp: "set (insort_cmp c x xs) = insert x (set xs)"
  by (induction xs) auto

lemma set_sort_cmp: "set (sort_cmp c xs) = set xs"
  unfolding sort_cmp_def by (induction xs) (simp_all add: set_insort_cmp)

lemma fold_partition_step:
  "fold (partition_step getTime now) bs acc =
     (fst acc @ filter (\<lambda>b. \<not> is_archived getTime now b) bs,
      snd acc @ filter (is_archived getTime now) bs)"
  by (induction bs arbitrary: acc) (simp_all add: partition_step_def)

lemma set_archivedBatches:
  "set (archivedBatches getTime now bs) = {b \<in> set bs. is_archived getTime now b}"
  by (simp add: archivedBatches_def partitionBatches_def Let_def set_sort_cmp fold_partition_step)

lemma set_dashboardBatches:
  "set (dashboardBatches getTime now bs) = {b \<in> set bs. \<not> is_archived getTime now b}"
  by (simp add: dashboardBatches_def partitionBatches_def Let_def set_sort_cmp fold_partition_step)

lemma is_archived_iff:
  assumes "status b = Finalized" "returnDatetime b = Some s" "s \<noteq> []" "getTime s = Some t"
  shows "is_archived getTime now b \<longleftrightarrow> now - t > 4 * (24 * 60 * 60 * 1000)"
proof -
  have "real_of_int (now - t) / (1000 * 60 * 60 * 24) > 4 \<longleftrightarrow> real_of_int (now - t) > 4 * (1000 * 60 * 60 * 24)"
    by (simp add: pos_less_divide_eq)
  also have "\<dots> \<longleftrightarrow> real_of_int (now - t) > real_of_int 345600000" by simp
  also have "\<dots> \<longleftrightarrow> now - t > 345600000" by (simp only: of_int_less_iff)
  finally show ?thesis using assms
    by (simp add: is_archived_def diffDays_def ARCHIVE_DELAY_DAYS_def)
qed

lemma is_archived_pending: "status b = Pending \<Longrightarrow> \<not> is_archived getTime now b"
  by (simp add: is_archived_def split: option.splits)

text \<open>
  Claim C5. A finalized batch of the store whose \<^verbatim>\<open>returnDatetime\<close> is a date is archived
  exactly when the time since then is more than four days, and active exactly when it
  is at most four days, so at exactly four days it is active. A pending batch is
  active. Times are in milliseconds.
\<close>

theorem archived_after_four_days:
  assumes "b \<in> set bs"
  shows "(status b = Finalized \<and> returnDatetime b = Some s \<and> s \<noteq> [] \<and> getTime s = Some t \<longrightarrow>
            (b \<in> set (archivedBatches getTime now bs) \<longleftrightarrow> now - t > 4 * (24 * 60 * 60 * 1000)) \<and>
            (b \<in> set (dashboardBatches getTime now bs) \<longleftrightarrow> now - t \<le> 4 * (24 * 60 * 60 * 1000)) \<and>
            (now - t = 4 * (24 * 60 * 60 * 1000) \<longrightarrow> b \<in> set (dashboardBatches getTime now bs))) \<and>
         (status b = Pending \<longrightarrow>
            b \<in> set (dashboardBatches getTime now bs) \<and> b \<notin> set (archivedBatches getTime now bs)) \<and>
         (b \<in> set (archivedBatches getTime now bs) \<longleftrightarrow> b \<notin> set (dashboardBatches getTime now bs))"
proof (intro conjI impI)
  assume h: "status b = Finalized \<and> returnDatetime b = Some s \<and> s \<noteq> [] \<and> getTime s = Some t"
  then have i: "is_archived getTime now b \<longleftrightarrow> now - t > 4 * (24 * 60 * 60 * 1000)"
    by (simp add: is_archived_iff)
  from assms i show "b \<in> set (archivedBatches getTime now bs) \<longleftrightarrow> now - t > 4 * (24 * 60 * 60 * 1000)"
    by (simp add: set_archivedBatches)
  from assms i show d: "b \<in> set (dashboardBatches getTime now bs) \<longleftrightarrow> now - t \<le> 4 * (24 * 60 * 60 * 1000)"
    by (simp add: set_dashboardBatches not_less)
  assume "now - t = 4 * (24 * 60 * 60 * 1000)"
  with d show "b \<in> set (dashboardBatches getTime now bs)" by simp
next
  assume "status b = Pending"
  then have n: "\<not> is_archived getTime now b" by (rule is_archived_pending)
  from assms n show "b \<in> set (dashboardBatches getTime now bs)" by (simp add: set_dashboardBatches)
  from n show "b \<notin> set (archivedBatches getTime now bs)" by (simp add: set_archivedBatches)
next
  from assms show "b \<in> set (archivedBatches getTime now bs) \<longleftrightarrow> b \<notin> set (dashboardBatches getTime now bs)"
    by (simp add: set_archivedBatches set_dashboardBatches)
qed

theorem archived_after_four_days_witness:
  "ex_B1_final \<in> set (batches ex_store3) \<and> ex_B2 \<in> set (batches ex_store3) \<and>
   status ex_B1_final = Finalized \<and> returnDatetime ex_B1_final = Some ''2024-01-10T12:00:00.000Z'' \<and>
   ex_getTime ''2024-01-10T12:00:00.000Z'' = Some 1704888000000 \<and>
   1705233600000 - 1704888000000 = (4 * (24 * 60 * 60 * 1000) :: int) \<and>
   ex_B1_final \<in> set (dashboardBatches ex_getTime 1705233600000 (batches ex_store3)) \<and>
   ex_B1_final \<notin> set (archivedBatches ex_getTime 1705233600000 (batches ex_store3)) \<and>
   ex_B1_final \<in> set (archivedBatches ex_getTime 1705233600001 (batches ex_store3)) \<and>
   ex_B1_final \<notin> set (dashboardBatches ex_getTime 1705233600001 (batches ex_store3)) \<and>
   status ex_B2 = Pending \<and>
   ex_B2 \<in> set (dashboardBatches ex_getTime 1705233600001 (batches ex_store3)) \<and>
   ex_B2 \<notin> set (archivedBatches ex_getTime 1705233600001 (batches ex_store3))"
proof -
  have m: "ex_B1_final \<in> set (batches ex_store3)" "ex_B2 \<in> set (batches ex_store3)"
    by (simp_all add: ex_store3_def)
  have f: "status ex_B1_final = Finalized \<and>
           returnDatetime ex_B1_final = Some ''2024-01-10T12:00:00.000Z'' \<and>
           ''2024-01-10T12:00:00.000Z'' \<noteq> [] \<and>
           ex_getTime ''2024-01-10T12:00:00.000Z'' = Some 1704888000000"
    by (simp add: ex_B1_final_def ex_getTime_def)
  have p: "status ex_B2 = Pending" by (simp add: ex_B2_def ex_B1_def)
  have a: "1705233600000 - 1704888000000 = (4 * (24 * 60 * 60 * 1000) :: int)"
     "(1705233600001::int) - 1704888000000 > 4 * (24 * 60 * 60 * 1000)"
    by simp_all
  note t0 = archived_after_four_days [OF m(1), of "''2024-01-10T12:00:00.000Z''" ex_getTime
      1704888000000 1705233600000]
  note t1 = archived_after_four_days [OF m(1), of "''2024-01-10T12:00:00.000Z''" ex_getTime
      1704888000000 1705233600001]
  note t2 = archived_after_four_days [OF m(2), of "''2024-01-10T12:00:00.000Z''" ex_getTime
      1704888000000 1705233600001]
  from t0 f a(1) have c0: "ex_B1_final \<in> set (dashboardBatches ex_getTime 1705233600000 (batches ex_store3))"
    "ex_B1_final \<notin> set (archivedBatches ex_getTime 1705233600000 (batches ex_store3))"
    by blast+
  from t1 f a(2) have c1: "ex_B1_final \<in> set (archivedBatches ex_getTime 1705233600001 (batches ex_store3))"
    "ex_B1_final \<notin> set (dashboardBatches ex_getTime 1705233600001 (batches ex_store3))"
    by blast+
  from t2 p have c2: "ex_B2 \<in> set (dashboardBatches ex_getTime 1705233600001 (batches ex_store3))"
    "ex_B2 \<notin> set (archivedBatches ex_getTime 1705233600001 (batches ex_store3))"
    by blast+
  from f have f': "status ex_B1_final = Finalized"
    "returnDatetime ex_B1_final = Some ''2024-01-10T12:00:00.000Z''"
    "ex_getTime ''2024-01-10T12:00:00.000Z'' = Some 1704888000000" by simp_all
  show ?thesis
    by (intro conjI) (rule m f' a(1) c0 c1 p c2)+
qed

section \<open>Summary of the dashboard\<close>

lemma ex_step3:
  "apply_event zod ex_getTime ex_toISOString ex_localeCompare (NewBatch ''B3'' ex_new_batch_form ''lote'')
     ex_store2 = \<lparr> batches = [ex_B3, ex_B1_final], deliveryPeople = [ex_person] \<rparr>"
  by (simp add: ex_store2_def ex_new_batch_form_def ex_B1_def ex_B3_def
        NewBatchModal_handleSubmit_def newBatchSchema_def string_min1_def number_min0_def addBatch_def)

lemma ex_finalize_absent:
  "FinalizeBatchModal_handleSubmit ex_getTime ex_toISOString ex_B3 (''2024-01-10T12:00'', ex_absent_inputs)
     = Accepted ex_B3_final"
  by (simp add: FinalizeBatchModal_handleSubmit_def createFinalizeBatchSchema_def
        string_min1_def count_field_issues_def number_min0_def coerced_counts_def sum_issues_def
        ex_absent_inputs_def ex_B1_def ex_B3_def ex_B3_final_def ex_getTime_def ex_toISOString_def
        spread_counts_def totalPaidItems_def DELIVERY_FEE_def)

lemma ex_step4:
  "apply_event zod ex_getTime ex_toISOString ex_localeCompare
     (FinalizeBatch ex_B3 (''2024-01-10T12:00'', ex_absent_inputs))
     \<lparr> batches = [ex_B3, ex_B1_final], deliveryPeople = [ex_person] \<rparr> = ex_store4"
  by (simp only: apply_event.simps ex_finalize_absent submit.case)
     (simp add: ex_store4_def updateBatch_def ex_B3_final_def ex_B3_def ex_B1_final_def ex_B1_def)

lemma ex_reachable4: "reachable zod ex_getTime ex_toISOString ex_localeCompare ex_store4"
proof -
  have "enabled (NewBatch ''B3'' ex_new_batch_form ''lote'') ex_store2" by simp
  from reachable.step [OF ex_reachable(3) this]
  have r: "reachable zod ex_getTime ex_toISOString ex_localeCompare
             \<lparr> batches = [ex_B3, ex_B1_final], deliveryPeople = [ex_person] \<rparr>"
    by (simp only: ex_step3)
  have "enabled (FinalizeBatch ex_B3 (''2024-01-10T12:00'', ex_absent_inputs))
          \<lparr> batches = [ex_B3, ex_B1_final], deliveryPeople = [ex_person] \<rparr>"
    by simp
  from reachable.step [OF r this] show ?thesis by (simp only: ex_step4)
qed

lemma ex_dashboard4:
  "dashboardBatches ex_getTime 1704900000000 (batches ex_store4) = [ex_B3_final, ex_B1_final]"
  by (simp add: dashboardBatches_def partitionBatches_def partition_step_def is_archived_def
        diffDays_def ARCHIVE_DELAY_DAYS_def sort_cmp_def sortFn_def ex_store4_def
        ex_B3_final_def ex_B3_def ex_B1_final_def ex_B1_def ex_getTime_def)

text \<open>
  Claim C6 says that the summary adds up the absent documents of all finalized batches
  it is given. The store below is reached by finalizing a second batch with all ten
  documents absent. Its total is zero, the guard of the loop takes it for no total,
  and the batch is skipped: the two finalized batches of the dashboard have eleven
  absent documents, and the summary counts one.
\<close>

theorem summary_skips_all_absent_batch:
  "reachable zod ex_getTime ex_toISOString ex_localeCompare ex_store4 \<and>
   dashboardBatches ex_getTime 1704900000000 (batches ex_store4) = [ex_B3_final, ex_B1_final] \<and>
   status ex_B3_final = Finalized \<and> status ex_B1_final = Finalized \<and>
   absent_of ex_B3_final = 10 \<and> absent_of ex_B1_final = 1 \<and>
   sum_list (map absent_of (filter (\<lambda>b. status b = Finalized) [ex_B3_final, ex_B1_final])) = 11 \<and>
   totalAbsent (fst (summary_performance
      (dashboardBatches ex_getTime 1704900000000 (batches ex_store4)) (deliveryPeople ex_store4))) = 1"
proof -
  have s: "status ex_B3_final = Finalized" "status ex_B1_final = Finalized"
    "absent_of ex_B3_final = 10" "absent_of ex_B1_final = 1"
    by (simp_all add: ex_B3_final_def ex_B1_final_def absent_of_def or0_def)
  have t: "totalAbsent (fst (summary_performance [ex_B3_final, ex_B1_final] (deliveryPeople ex_store4))) = 1"
    by (simp add: summary_performance_def summary_step_def init_performance_def Let_def or0_def
          ex_store4_def ex_B3_final_def ex_B3_def ex_B1_final_def ex_B1_def ex_person_def
          ex_person_form_def)
  from s have u: "sum_list (map absent_of (filter (\<lambda>b. status b = Finalized) [ex_B3_final, ex_B1_final])) = 11"
    by simp
  show ?thesis
    unfolding ex_dashboard4 by (intro conjI) (rule ex_reachable4 refl s t u)+
qed

section \<open>Summary by courier\<close>

lemma fold_init_entry:
  "k \<in> person_id ` set people \<or> (\<exists>nm. m k = Some \<lparr> gains = 0, delivered = 0, returned = 0, perf_name = nm \<rparr>) \<Longrightarrow>
   \<exists>nm. fold (\<lambda>p m. m(person_id p \<mapsto> \<lparr> gains = 0, delivered = 0, returned = 0, perf_name = name p \<rparr>))
           people m k = Some \<lparr> gains = 0, delivered = 0, returned = 0, perf_name = nm \<rparr>"
proof (induction people arbitrary: m)
  case Nil
  then show ?case by simp
next
  case (Cons p ps)
  let ?m = "m(person_id p \<mapsto> \<lparr> gains = 0, delivered = 0, returned = 0, perf_name = name p \<rparr>)"
  from Cons.prems
  have "k \<in> person_id ` set ps \<or> (\<exists>nm. ?m k = Some \<lparr> gains = 0, delivered = 0, returned = 0, perf_name = nm \<rparr>)"
    by auto
  from Cons.IH [of ?m, OF this] show ?case by simp
qed

lemma init_performance_entry:
  "p \<in> set people \<Longrightarrow>
   \<exists>nm. init_performance people (person_id p) = Some \<lparr> gains = 0, delivered = 0, returned = 0, perf_name = nm \<rparr>"
  unfolding init_performance_def by (rule fold_init_entry) simp

text \<open>
  A finalized batch with non-negative counts and the payable value of its counts has
  nothing delivered and nothing returned when its total value is zero.
\<close>

lemma fields_ok_unvalued: "finalized_fields_ok b \<Longrightarrow> unvalued_is_empty b"
  by (auto simp: unvalued_is_empty_def finalized_fields_ok_def nonneg_opt_def payable_def
        DELIVERY_FEE_def or0_def delivered_of_def returned_of_def split: option.splits)

lemma skipped_batch_is_empty:
  assumes "unvalued_is_empty b" "status b = Finalized" "totalValue b = None \<or> totalValue b = Some 0"
  shows "delivered_of b = 0 \<and> returned_of b = 0 \<and> or0 (totalValue b) = 0"
  using assms by (auto simp: unvalued_is_empty_def or0_def)

lemma summary_step_entry:
  assumes "unvalued_is_empty b" "snd acc k = Some e"
  shows "\<exists>e'. snd (summary_step b acc) k = Some e' \<and>
           gains e' = gains e + share k (\<lambda>b. or0 (totalValue b)) b \<and>
           delivered e' = delivered e + share k delivered_of b \<and>
           returned e' = returned e + share k returned_of b"
proof (cases "status b = Finalized \<and> deliveryPersonId b = k")
  case False
  with assms(2) show ?thesis
    by (auto simp: summary_step_def share_def Let_def split: option.splits)
next
  case True
  show ?thesis
  proof (cases "totalValue b = None \<or> totalValue b = Some 0")
    case True
    with assms(1) \<open>status b = Finalized \<and> deliveryPersonId b = k\<close>
    have "delivered_of b = 0 \<and> returned_of b = 0 \<and> or0 (totalValue b) = 0"
      by (simp add: skipped_batch_is_empty)
    moreover from True have "summary_step b acc = acc"
      by (auto simp: summary_step_def)
    ultimately show ?thesis using assms(2) by (simp add: share_def)
  next
    case False
    then obtain tv where "totalValue b = Some tv" "tv \<noteq> 0" by auto
    with True assms(2) show ?thesis
      by (simp add: summary_step_def share_def Let_def or0_def delivered_of_def returned_of_def)
  qed
qed

lemma sum_list_share:
  "sum_list (map (share k f) bs) = sum_list (map f (courier_finalized k bs))"
  by (induction bs) (simp_all add: share_def courier_finalized_def)

lemma fold_summary_step_entry:
  assumes "\<forall>b \<in> set bs. unvalued_is_empty b" "snd acc k = Some e"
  shows "\<exists>e'. snd (fold summary_step bs acc) k = Some e' \<and>
           gains e' = gains e + sum_list (map (share k (\<lambda>b. or0 (totalValue b))) bs) \<and>
           delivered e' = delivered e + sum_list (map (share k delivered_of) bs) \<and>
           returned e' = returned e + sum_list (map (share k returned_of) bs)"
  using assms
proof (induction bs arbitrary: acc e)
  case Nil
  then show ?case by simp
next
  case (Cons b bs)
  from Cons.prems have "unvalued_is_empty b" by simp
  from summary_step_entry [OF this Cons.prems(2)]
  obtain e1 where e1: "snd (summary_step b acc) k = Some e1"
    "gains e1 = gains e + share k (\<lambda>b. or0 (totalValue b)) b"
    "delivered e1 = delivered e + share k delivered_of b"
    "returned e1 = returned e + share k returned_of b"
    by blast
  from Cons.prems have "\<forall>b \<in> set bs. unvalued_is_empty b" by simp
  from Cons.IH [OF this e1(1)] e1(2-4) show ?case by auto
qed

text \<open>
  The batches of the dashboard of a store that the application reaches from the empty
  store, in every release, meet the condition of the amended claim.
\<close>

lemma reachable_unvalued_is_empty:
  assumes "reachable zod getTime toISOString localeCompare st"
  shows "\<forall>b \<in> set (dashboardBatches getTime now (batches st)). unvalued_is_empty b"
proof
  fix b assume "b \<in> set (dashboardBatches getTime now (batches st))"
  then have m: "b \<in> set (batches st)" by (simp add: set_dashboardBatches)
  show "unvalued_is_empty b"
  proof (cases "status b = Finalized")
    case True
    with assms m have "finalized_fields_ok b" by (rule reachable_finalized_ok)
    then show ?thesis by (rule fields_ok_unvalued)
  next
    case False
    then show ?thesis by (simp add: unvalued_is_empty_def)
  qed
qed

text \<open>
  Claim C7, as stated, is about every collection of batches. The loop skips a finalized
  batch that has no total value. The finalized batch of the run without its total
  value has seven documents delivered, and the entry of its courier counts none.
\<close>

theorem per_courier_summary_counterexample:
  "ex_person \<in> set [ex_person] \<and> status ex_B1_no_total = Finalized \<and>
   deliveryPersonId ex_B1_no_total = person_id ex_person \<and>
   courier_finalized (person_id ex_person) [ex_B1_no_total] = [ex_B1_no_total] \<and>
   sum_list (map delivered_of (courier_finalized (person_id ex_person) [ex_B1_no_total])) = 7 \<and>
   map_option delivered (snd (summary_performance [ex_B1_no_total] [ex_person]) (person_id ex_person))
     = Some 0"
  by (simp add: ex_B1_no_total_def ex_B1_final_def ex_B1_def ex_person_def ex_person_form_def
        courier_finalized_def delivered_of_def or0_def summary_performance_def summary_step_def
        init_performance_def)

text \<open>
  Claim C7, amended. Given batches in which every finalized batch without a total value
  (absent or zero) has nothing delivered and nothing returned, as it is when the total
  value is the payable value of non-negative counts, the summary has an entry for
  every courier of the list. Its gains, deliveries and returns are the sums of the
  total value, of the delivered and of the returned documents over the finalized
  batches of that courier, and they are zero for a courier without such a batch.
\<close>

theorem per_courier_summary:
  assumes "\<forall>b \<in> set bs. unvalued_is_empty b" and "p \<in> set people"
  shows "\<exists>e. snd (summary_performance bs people) (person_id p) = Some e \<and>
           gains e = sum_list (map (\<lambda>b. or0 (totalValue b)) (courier_finalized (person_id p) bs)) \<and>
           delivered e = sum_list (map delivered_of (courier_finalized (person_id p) bs)) \<and>
           returned e = sum_list (map returned_of (courier_finalized (person_id p) bs)) \<and>
           (courier_finalized (person_id p) bs = [] \<longrightarrow>
              gains e = 0 \<and> delivered e = 0 \<and> returned e = 0)"
proof -
  from init_performance_entry [OF assms(2)] obtain nm where
    i: "init_performance people (person_id p) =
          Some \<lparr> gains = 0, delivered = 0, returned = 0, perf_name = nm \<rparr>" by blast
  let ?acc = "(\<lparr> totalGains = 0, totalDelivered = 0, totalReturned = 0, totalAbsent = 0 \<rparr>,
        init_performance people)"
  from i have "snd ?acc (person_id p) = Some \<lparr> gains = 0, delivered = 0, returned = 0, perf_name = nm \<rparr>"
    by simp
  from fold_summary_step_entry [OF assms(1) this]
  obtain e where e: "snd (fold summary_step bs ?acc) (person_id p) = Some e"
    "gains e = sum_list (map (share (person_id p) (\<lambda>b. or0 (totalValue b))) bs)"
    "delivered e = sum_list (map (share (person_id p) delivered_of) bs)"
    "returned e = sum_list (map (share (person_id p) returned_of) bs)"
    by auto
  then show ?thesis
    by (auto simp: summary_performance_def sum_list_share)
qed

theorem per_courier_summary_witness:
  "ex_person \<in> set (deliveryPeople ex_store3) \<and> ex_person2 \<in> set (deliveryPeople ex_store3) \<and>
   courier_finalized (person_id ex_person) (batches ex_store3) = [ex_B1_final] \<and>
   courier_finalized (person_id ex_person2) (batches ex_store3) = [] \<and>
   (\<exists>e. snd (summary_performance (batches ex_store3) (deliveryPeople ex_store3)) (person_id ex_person) = Some e \<and>
        gains e = 27 \<and> delivered e = 7 \<and> returned e = 2) \<and>
   (\<exists>e. snd (summary_performance (batches ex_store3) (deliveryPeople ex_store3)) (person_id ex_person2) = Some e \<and>
        gains e = 0 \<and> delivered e = 0 \<and> returned e = 0)"
proof -
  have ok: "\<forall>b \<in> set (batches ex_store3). unvalued_is_empty b"
    by (simp add: ex_store3_def unvalued_is_empty_def ex_B2_def ex_B1_final_def ex_B1_def)
  have p: "ex_person \<in> set (deliveryPeople ex_store3)" "ex_person2 \<in> set (deliveryPeople ex_store3)"
    by (simp_all add: ex_store3_def)
  have c1: "courier_finalized (person_id ex_person) (batches ex_store3) = [ex_B1_final]"
    by (simp add: courier_finalized_def ex_store3_def ex_person_def ex_B2_def ex_B1_final_def ex_B1_def)
  have c2: "courier_finalized (person_id ex_person2) (batches ex_store3) = []"
    by (simp add: courier_finalized_def ex_store3_def ex_person2_def ex_B2_def ex_B1_final_def ex_B1_def)
  have v: "or0 (totalValue ex_B1_final) = 27" "delivered_of ex_B1_final = 7" "returned_of ex_B1_final = 2"
    by (simp_all add: ex_B1_final_def or0_def delivered_of_def returned_of_def)
  from per_courier_summary [OF ok p(1)]
  have e1: "\<exists>e. snd (summary_performance (batches ex_store3) (deliveryPeople ex_store3)) (person_id ex_person) = Some e \<and>
        gains e = 27 \<and> delivered e = 7 \<and> returned e = 2"
    unfolding c1 by (auto simp: v)
  from per_courier_summary [OF ok p(2)]
  have e2: "\<exists>e. snd (summary_performance (batches ex_store3) (deliveryPeople ex_store3)) (person_id ex_person2) = Some e \<and>
        gains e = 0 \<and> delivered e = 0 \<and> returned e = 0"
    unfolding c2 by auto
  show ?thesis
    by (intro conjI) (rule p c1 c2 e1 e2)+
qed

end
